theory Spec2Isabelle
  imports Main
begin

section \<open>Data model of the reaction role manager\<close>

text \<open>
  The development embeds \<^verbatim>\<open>src/reaction-role/manager.js\<close> (class
  \<^verbatim>\<open>ReactionRoleManager\<close>). Discord identifiers (snowflakes) and emoji
  identifiers are strings. JavaScript objects that the manager mutates in place and
  shares between its registry and its pending timers (the \<^verbatim>\<open>ReactionRole\<close>
  objects) live in an explicit heap and are passed around by reference.
\<close>

type_synonym snowflake = string
type_synonym ref = nat

text \<open>
  \<^verbatim>\<open>ActionType\<close> and \<^verbatim>\<open>RequirementType\<close> come from
  \<^verbatim>\<open>./constants\<close>, which is not part of the sources; the manager uses the
  members \<^verbatim>\<open>GIVE\<close>, \<^verbatim>\<open>TAKE\<close>, \<^verbatim>\<open>BOOST\<close> and
  \<^verbatim>\<open>VERIFIED_DEVELOPER\<close>. \<open>UNKNOWN\<close> stands for every other value an
  action argument may carry (the \<^verbatim>\<open>default:\<close> branch of the handler).
\<close>

datatype ActionType = GIVE | TAKE | UNKNOWN

datatype RequirementType = BOOST | VERIFIED_DEVELOPER

text \<open>A guild member: \<^verbatim>\<open>member.id\<close> (the user's id) and \<^verbatim>\<open>member.guild\<close>.\<close>

record GuildMember =
  mid :: snowflake
  mguild :: snowflake

text \<open>A message: \<^verbatim>\<open>message.id\<close>, \<^verbatim>\<open>message.channel\<close> and
  \<^verbatim>\<open>message.guild\<close> (absent for a direct message).\<close>

record Message =
  msg_id :: snowflake
  msg_channel :: snowflake
  msg_guild :: "snowflake option"

text \<open>A \<^verbatim>\<open>MessageReaction\<close>: the message it belongs to and the identifier
  \<^verbatim>\<open>__resolveReactionEmoji\<close> gives for its emoji.\<close>

record MessageReaction =
  r_message :: Message
  r_emoji :: string

text \<open>
  The class \<^verbatim>\<open>ReactionRole\<close> (\<^verbatim>\<open>./reactionRole\<close>) is not part of the
  sources. The record has the fields the manager reads and writes and the persisted
  layout lists; \<open>id\<close> and \<open>max\<close> are renamed \<open>rid\<close> and \<open>rmax\<close>. The getters
  \<^verbatim>\<open>isToggle\<close>, \<^verbatim>\<open>isReversed\<close>, \<^verbatim>\<open>isJustWin\<close> and
  \<^verbatim>\<open>isJustLose\<close>, which the class derives from its \<^verbatim>\<open>type\<close>, are
  taken as they evaluate; \<open>boost\<close> and \<open>verifiedDeveloper\<close> are the two entries of
  \<^verbatim>\<open>requirements\<close>.
\<close>

record ReactionRole =
  rid :: string
  message :: snowflake
  channel :: snowflake
  guild :: snowflake
  emoji :: string
  roles :: "snowflake list"
  rmax :: int
  isToggle :: bool
  isReversed :: bool
  isJustWin :: bool
  isJustLose :: bool
  boost :: bool
  verifiedDeveloper :: bool
  disabled :: bool
  winners :: "snowflake list"

text \<open>The events the manager emits, in the order of emission. A reaction role in an
  event is the reference of the object.\<close>

datatype event =
    READY
  | REACTION_ROLE_ADD GuildMember snowflake
  | REACTION_ROLE_REMOVE GuildMember snowflake
  | ALL_REACTIONS_REMOVE Message "snowflake list" "GuildMember list" nat
  | MISSING_REQUIREMENTS RequirementType GuildMember ref
  | MISSING_PERMISSIONS ActionType GuildMember "snowflake list" ref

text \<open>A pending toggle settlement: the arguments the timer callback of
  \<^verbatim>\<open>__timeoutToggledRoles\<close> closes over.\<close>

record task =
  t_member :: GuildMember
  t_message :: Message
  t_skippedRole :: "ref option"

text \<open>What a handler's promise does: it resolves, it rejects with a
  \<^verbatim>\<open>TypeError\<close> (a property read on \<^verbatim>\<open>undefined\<close>), with an
  \<^verbatim>\<open>Error\<close> the manager throws itself or with an error of the Discord API
  (with its code), or it stays pending for ever (a promise whose executor threw before
  it called \<^verbatim>\<open>resolve\<close>).\<close>

datatype outcome = Done | TypeError | ThrownError | ApiError nat | Pending

text \<open>What \<^verbatim>\<open>channel.messages.fetch(id)\<close> does: it resolves to the message,
  resolves to nothing, or rejects with an API error code (10008 is Unknown Message).\<close>

datatype fetched = Fetched | Nothing | Rejected nat

text \<open>What \<^verbatim>\<open>__handleDeleted\<close> is handed to resolve a guild from: the
  role, emoji, guild, channel or message object of the event, or
  \<^verbatim>\<open>undefined\<close>.\<close>

datatype resolvable =
    ARole snowflake
  | AnEmoji string
  | AGuild snowflake
  | AChannel snowflake
  | AMessage snowflake
  | Undefined

text \<open>
  One record holds the manager's own fields and what it observes and changes on the
  Discord side through \<^verbatim>\<open>discord.js\<close>.

  Manager: \<open>heap\<close> and \<open>reactionRoles\<close> are the \<^verbatim>\<open>Collection\<close> of
  reaction roles (keys in insertion order, values by reference); \<open>timeouts\<close> are the
  pending per-member timers and \<open>readyTimer\<close> the deadline of the pending
  \<^verbatim>\<open>'ready_timeout'\<close> timer (both live in \<^verbatim>\<open>this.timeouts\<close>, whose
  keys cannot collide: one is a snowflake, the other is not); \<open>busy\<close> is the set of
  keys the \<^verbatim>\<open>AsyncLock\<close> holds; \<open>emitted\<close> is the log of emitted events.
  Persistence (\<^verbatim>\<open>store\<close>) writes the registry out and changes nothing the
  manager reads again before the next boot, so it has no field.

  Discord: a role is known by its id; \<open>guildRoles g\<close> are the roles of guild \<open>g\<close>,
  \<open>editable\<close> is \<^verbatim>\<open>role.editable\<close>, \<open>memberRoles\<close> is
  \<^verbatim>\<open>member.roles.cache\<close>, \<open>reactions m\<close> is the reaction cache of message
  \<open>m\<close> (emoji identifier and the users who reacted, in cache order);
  \<open>guildsResolve\<close> is \<^verbatim>\<open>client.guilds.resolve\<close> and
  \<open>identifierOfReaction\<close> is the text \<^verbatim>\<open>__resolveReactionEmoji\<close> prints
  when it is handed a reaction instead of an emoji (an object with neither
  \<^verbatim>\<open>id\<close> nor \<^verbatim>\<open>name\<close>). A mutation the manager awaits (adding
  a role, removing a reaction) succeeds and is visible to its next read; a reaction
  whose last user was removed stays in the cache with no users.
\<close>

record world =
  heap :: "ref \<Rightarrow> ReactionRole"
  nextRef :: ref
  reactionRoles :: "(string \<times> ref) list"
  timeouts :: "(snowflake \<times> task) list"
  readyTimer :: "nat option"
  busy :: "snowflake set"
  isReady :: bool
  readyAt :: "nat option"
  storage :: bool
  mongoose :: bool
  disabledProperty :: bool
  preRoleAddHook :: "GuildMember \<Rightarrow> snowflake \<Rightarrow> ReactionRole \<Rightarrow> bool"
  preRoleRemoveHook :: "GuildMember \<Rightarrow> snowflake \<Rightarrow> ReactionRole \<Rightarrow> bool"
  withoutPermissionsWarned :: "string set"
  emitted :: "event list"
  now :: nat
  guildsCache :: "snowflake set"
  guildsResolve :: "resolvable \<Rightarrow> snowflake option"
  guildChannels :: "snowflake \<Rightarrow> snowflake set"
  messagesFetch :: "snowflake \<Rightarrow> snowflake \<Rightarrow> fetched"
  guildMembers :: "snowflake \<Rightarrow> snowflake set"
  guildRoles :: "snowflake \<Rightarrow> snowflake set"
  editable :: "snowflake \<Rightarrow> bool"
  memberRoles :: "GuildMember \<Rightarrow> snowflake set"
  reactions :: "snowflake \<Rightarrow> (string \<times> snowflake list) list"
  bots :: "snowflake set"
  clientUser :: snowflake
  identifierOfReaction :: string
  boosters :: "GuildMember set"
  verifiedDevelopers :: "snowflake set"

section \<open>The permission check\<close>

definition emit :: "event \<Rightarrow> world \<Rightarrow> world" where
  "emit e w = w\<lparr>emitted := emitted w @ [e]\<rparr>"

text \<open>The key \<^verbatim>\<open>`${role.id}-${member.id}`\<close> of the warned set.\<close>

definition warnedKey :: "snowflake \<Rightarrow> GuildMember \<Rightarrow> string" where
  "warnedKey role member = role @ ''-'' @ mid member"

text \<open>\<^verbatim>\<open>reactionRole.roles.map((role) => member.guild.roles.resolve(role)).filter((role) => role)\<close>\<close>

definition resolveRoles :: "world \<Rightarrow> ReactionRole \<Rightarrow> GuildMember \<Rightarrow> snowflake list" where
  "resolveRoles w rr member = filter (\<lambda>role. role \<in> guildRoles w (mguild member)) (roles rr)"

definition checkRolesPermissions ::
  "ActionType \<Rightarrow> ref \<Rightarrow> GuildMember \<Rightarrow> world \<Rightarrow> snowflake list \<times> world" where
  "checkRolesPermissions action reactionRole member w =
     (let rs = resolveRoles w (heap w reactionRole) member;
          rolesWithoutPermission =
            filter (\<lambda>role. \<not> editable w role
                      \<and> warnedKey role member \<notin> withoutPermissionsWarned w) rs;
          rolesWithPermission = filter (editable w) rs
      in if rolesWithoutPermission \<noteq> []
         then (rolesWithPermission,
               emit (MISSING_PERMISSIONS action member rolesWithoutPermission reactionRole)
                 (w\<lparr>withoutPermissionsWarned :=
                      withoutPermissionsWarned w
                        \<union> (\<lambda>role. warnedKey role member) ` set rolesWithoutPermission\<rparr>))
         else (rolesWithPermission, w))"

section \<open>Collections, reactions and role changes\<close>

text \<open>\<^verbatim>\<open>Collection.set\<close> (a JavaScript \<^verbatim>\<open>Map\<close>): an existing key keeps its
  place and gets the new value, a new key goes last. \<^verbatim>\<open>Collection.delete\<close>
  removes the key.\<close>

fun collectionSet :: "'k \<Rightarrow> 'v \<Rightarrow> ('k \<times> 'v) list \<Rightarrow> ('k \<times> 'v) list" where
  "collectionSet k v [] = [(k, v)]"
| "collectionSet k v ((k', v') # kvs) =
     (if k' = k then (k, v) # kvs else (k', v') # collectionSet k v kvs)"

definition collectionDelete :: "'k \<Rightarrow> ('k \<times> 'v) list \<Rightarrow> ('k \<times> 'v) list" where
  "collectionDelete k kvs = filter (\<lambda>kv. fst kv \<noteq> k) kvs"

text \<open>Writing to a reaction role object.\<close>

definition setWinners :: "ref \<Rightarrow> snowflake list \<Rightarrow> world \<Rightarrow> world" where
  "setWinners a ws w = w\<lparr>heap := (heap w)(a := (heap w a)\<lparr>winners := ws\<rparr>)\<rparr>"

definition setDisabled :: "ref \<Rightarrow> world \<Rightarrow> world" where
  "setDisabled a w = w\<lparr>heap := (heap w)(a := (heap w a)\<lparr>disabled := True\<rparr>)\<rparr>"

text \<open>\<^verbatim>\<open>member.roles.add(role)\<close> and \<^verbatim>\<open>member.roles.remove(role)\<close>.\<close>

definition rolesAdd :: "GuildMember \<Rightarrow> snowflake \<Rightarrow> world \<Rightarrow> world" where
  "rolesAdd member role w =
     w\<lparr>memberRoles := (memberRoles w)(member := insert role (memberRoles w member))\<rparr>"

definition rolesRemove :: "GuildMember \<Rightarrow> snowflake \<Rightarrow> world \<Rightarrow> world" where
  "rolesRemove member role w =
     w\<lparr>memberRoles := (memberRoles w)(member := memberRoles w member - {role})\<rparr>"

text \<open>The users of the reaction with a given emoji identifier in a message's cache
  (\<^verbatim>\<open>reaction.users.fetch()\<close>), if the cache has such a reaction.\<close>

definition reactionUsers :: "world \<Rightarrow> snowflake \<Rightarrow> string \<Rightarrow> snowflake list option" where
  "reactionUsers w m e = map_of (reactions w m) e"

text \<open>\<^verbatim>\<open>reaction.users.remove(user)\<close>.\<close>

definition usersRemove :: "MessageReaction \<Rightarrow> snowflake \<Rightarrow> world \<Rightarrow> world" where
  "usersRemove reaction user w =
     w\<lparr>reactions := (reactions w)(msg_id (r_message reaction) :=
         map (\<lambda>(e, us). if e = r_emoji reaction then (e, removeAll user us) else (e, us))
           (reactions w (msg_id (r_message reaction))))\<rparr>"

text \<open>\<^verbatim>\<open>message.react(emoji)\<close>: the bot's own reaction.\<close>

definition react :: "snowflake \<Rightarrow> string \<Rightarrow> world \<Rightarrow> world" where
  "react m e w =
     w\<lparr>reactions := (reactions w)(m :=
         (case map_of (reactions w m) e of
            None \<Rightarrow> reactions w m @ [(e, [clientUser w])]
          | Some us \<Rightarrow>
              map (\<lambda>(e', us'). if e' = e \<and> clientUser w \<notin> set us'
                                then (e', us' @ [clientUser w]) else (e', us'))
                (reactions w m)))\<rparr>"

section \<open>Requirements\<close>

text \<open>
  Modelled from the spec: \<^verbatim>\<open>ReactionRole.checkBoostRequirement\<close> and
  \<^verbatim>\<open>ReactionRole.checkDeveloperRequirement\<close> are methods of the class that is
  not part of the sources. The spec: a reaction role that needs a boost is met by a
  member who is currently boosting the guild, one that needs a verified developer by
  a member who is one, and one with no requirement flag by every member.
\<close>

definition checkBoostRequirement :: "world \<Rightarrow> ReactionRole \<Rightarrow> GuildMember \<Rightarrow> bool" where
  "checkBoostRequirement w rr member = (if boost rr then member \<in> boosters w else True)"

definition checkDeveloperRequirement :: "world \<Rightarrow> ReactionRole \<Rightarrow> GuildMember \<Rightarrow> bool" where
  "checkDeveloperRequirement w rr member =
     (if verifiedDeveloper rr then mid member \<in> verifiedDevelopers w else True)"

text \<open>
  \<^verbatim>\<open>__checkRequirements\<close>. The reaction may be \<^verbatim>\<open>undefined\<close> (the
  settlement of toggled roles looks it up); removing the member from it then throws
  inside the promise's executor, after the event went out, and the promise never
  resolves: the result is \<open>None\<close>.
\<close>

definition checkRequirements ::
  "ref \<Rightarrow> MessageReaction option \<Rightarrow> GuildMember \<Rightarrow> world \<Rightarrow> bool option \<times> world" where
  "checkRequirements reactionRole reaction member w =
     (if \<not> checkBoostRequirement w (heap w reactionRole) member
      then (let w1 = emit (MISSING_REQUIREMENTS BOOST member reactionRole) w
            in case reaction of
                 None \<Rightarrow> (None, w1)
               | Some r \<Rightarrow> (Some False, usersRemove r (mid member) w1))
      else if \<not> checkDeveloperRequirement w (heap w reactionRole) member
      then (let w1 = emit (MISSING_REQUIREMENTS VERIFIED_DEVELOPER member reactionRole) w
            in case reaction of
                 None \<Rightarrow> (None, w1)
               | Some r \<Rightarrow> (Some False, usersRemove r (mid member) w1))
      else (Some True, w))"

section \<open>Scheduling the settlement of toggled roles\<close>

text \<open>
  The part of \<^verbatim>\<open>__timeoutToggledRoles\<close> that runs when it is called: at most
  three tries while the lock of the member is busy, then the member's timer is
  replaced by a new one. While the call sleeps between two tries nothing else runs.
  The timer's callback is \<open>toggledRolesTimeout\<close> below; when it runs is not fixed
  here (\<^verbatim>\<open>DEFAULT_TIMEOUT_TOGGLED_ROLES\<close> is a constant of
  \<^verbatim>\<open>../util/constants\<close>, which is not part of the sources).
\<close>

function timeoutToggledRoles ::
  "GuildMember \<Rightarrow> Message \<Rightarrow> ref option \<Rightarrow> nat \<Rightarrow> world \<Rightarrow> world" where
  "timeoutToggledRoles member msg skippedRole tries w =
     (if tries + 1 > 3 then w
      else if mid member \<in> busy w
      then timeoutToggledRoles member msg skippedRole (tries + 1) w
      else w\<lparr>timeouts :=
             collectionSet (mid member)
               \<lparr>t_member = member, t_message = msg, t_skippedRole = skippedRole\<rparr>
               (timeouts w)\<rparr>)"
  by pat_completeness auto
termination
  by (relation "measure (\<lambda>(member, msg, skippedRole, tries, w). 3 - tries)") auto

section \<open>The grant and revoke handler\<close>

text \<open>The \<^verbatim>\<open>for\<close> loop of the \<^verbatim>\<open>GIVE\<close> case over the roles with
  permission.\<close>

fun giveRoles :: "GuildMember \<Rightarrow> ref \<Rightarrow> snowflake list \<Rightarrow> world \<Rightarrow> world" where
  "giveRoles member reactionRole [] w = w"
| "giveRoles member reactionRole (role # rolesWithPermission) w =
     giveRoles member reactionRole rolesWithPermission
       (if preRoleAddHook w member role (heap w reactionRole)
           \<and> role \<notin> memberRoles w member
        then (let w1 = emit (REACTION_ROLE_ADD member role) (rolesAdd member role w)
              in if mid member \<notin> set (winners (heap w1 reactionRole))
                 then setWinners reactionRole (winners (heap w1 reactionRole) @ [mid member]) w1
                 else w1)
        else w)"

text \<open>The \<^verbatim>\<open>for\<close> loop of the \<^verbatim>\<open>TAKE\<close> case.\<close>

fun takeRoles :: "GuildMember \<Rightarrow> ref \<Rightarrow> snowflake list \<Rightarrow> world \<Rightarrow> world" where
  "takeRoles member reactionRole [] w = w"
| "takeRoles member reactionRole (role # rolesWithPermission) w =
     takeRoles member reactionRole rolesWithPermission
       (if preRoleRemoveHook w member role (heap w reactionRole)
           \<and> role \<in> memberRoles w member
        then emit (REACTION_ROLE_REMOVE member role) (rolesRemove member role w)
        else w)"

text \<open>\<^verbatim>\<open>winners.indexOf(id)\<close> and \<^verbatim>\<open>winners.splice(index, 1)\<close> when the
  index is not negative: the first occurrence goes.\<close>

definition spliceWinner :: "ref \<Rightarrow> snowflake \<Rightarrow> world \<Rightarrow> world" where
  "spliceWinner reactionRole user w =
     (if user \<in> set (winners (heap w reactionRole))
      then setWinners reactionRole (remove1 user (winners (heap w reactionRole))) w
      else w)"

text \<open>A reversed reaction role flips the action:
  \<^verbatim>\<open>action = action === ActionType.GIVE ? ActionType.TAKE : ActionType.GIVE\<close>.\<close>

definition effectiveAction :: "ReactionRole \<Rightarrow> ActionType \<Rightarrow> ActionType" where
  "effectiveAction rr action =
     (if isReversed rr then (if action = GIVE then TAKE else GIVE) else action)"

text \<open>\<^verbatim>\<open>__handleReactionRoleAction\<close>.\<close>

definition handleReactionRoleAction ::
  "ActionType \<Rightarrow> GuildMember \<Rightarrow> ref \<Rightarrow> MessageReaction \<Rightarrow> world \<Rightarrow> outcome \<times> world" where
  "handleReactionRoleAction action0 member reactionRole msgReaction w =
     (if disabled (heap w reactionRole) then (Done, w)
      else
        let action = effectiveAction (heap w reactionRole) action0
        in if isJustLose (heap w reactionRole) \<and> action = GIVE
           then (Done, usersRemove msgReaction (mid member) w)
           else if isJustWin (heap w reactionRole) \<and> action = TAKE
           then (Done, w)
           else
             let rolesWithPermission = fst (checkRolesPermissions action reactionRole member w);
                 w1 = snd (checkRolesPermissions action reactionRole member w)
             in case action of
                  GIVE \<Rightarrow>
                    if int (length (winners (heap w1 reactionRole))) \<ge> rmax (heap w1 reactionRole)
                        \<and> rmax (heap w1 reactionRole) > 0
                    then (Done, usersRemove msgReaction (mid member) w1)
                    else
                      let ok = fst (checkRequirements reactionRole (Some msgReaction) member w1);
                          w2 = snd (checkRequirements reactionRole (Some msgReaction) member w1)
                      in if ok \<noteq> Some True then (Done, w2)
                         else if isToggle (heap w2 reactionRole)
                         then (Done, timeoutToggledRoles member (r_message msgReaction)
                                       (Some reactionRole) 0 w2)
                         else (Done, giveRoles member reactionRole rolesWithPermission w2)
                | TAKE \<Rightarrow>
                    (Done, spliceWinner reactionRole (mid member)
                             (takeRoles member reactionRole rolesWithPermission w1))
                | UNKNOWN \<Rightarrow> (ThrownError, w1))"

section \<open>The settlement of toggled roles\<close>

text \<open>\<^verbatim>\<open>message.reactions.cache.find((r) => this.__resolveReactionEmoji(r.emoji) === e)\<close>\<close>

definition findReaction :: "world \<Rightarrow> Message \<Rightarrow> string \<Rightarrow> MessageReaction option" where
  "findReaction w msg e =
     (case map_of (reactions w (msg_id msg)) e of
        None \<Rightarrow> None
      | Some us \<Rightarrow> Some \<lparr>r_message = msg, r_emoji = e\<rparr>)"

text \<open>\<^verbatim>\<open>roles[0]\<close> looked up in a guild's role cache: \<open>None\<close> is
  \<^verbatim>\<open>undefined\<close>.\<close>

definition firstRole :: "world \<Rightarrow> snowflake \<Rightarrow> ReactionRole \<Rightarrow> snowflake option" where
  "firstRole w g rr =
     (case roles rr of
        [] \<Rightarrow> None
      | roleID # _ \<Rightarrow> if roleID \<in> guildRoles w g then Some roleID else None)"

text \<open>
  The \<^verbatim>\<open>for\<close> loop of the timer callback over the toggled roles of the
  message. It returns the reaction role to keep (\<^verbatim>\<open>skippedRole\<close>, which the
  loop assigns). The test before a role is taken off reads
  \<^verbatim>\<open>member.roles.cache.has(toggledRole.id)\<close>: the id of the reaction role, not
  \<^verbatim>\<open>roleID\<close>.
\<close>

fun settleToggledRoles ::
  "GuildMember \<Rightarrow> Message \<Rightarrow> ref list \<Rightarrow> ref option \<Rightarrow> world
     \<Rightarrow> outcome \<times> ref option \<times> world" where
  "settleToggledRoles member msg [] skippedRole w = (Done, skippedRole, w)"
| "settleToggledRoles member msg (toggledRole # rest) skippedRole w =
     (if disabled (heap w toggledRole) then settleToggledRoles member msg rest skippedRole w
      else
        case reactionUsers w (msg_id msg) (emoji (heap w toggledRole)) of
          None \<Rightarrow> (TypeError, skippedRole, w)
        | Some users \<Rightarrow>
            let reaction = \<lparr>r_message = msg, r_emoji = emoji (heap w toggledRole)\<rparr>
            in if mid member \<in> set users
                  \<and> (case skippedRole of
                        None \<Rightarrow> True
                      | Some s \<Rightarrow> rid (heap w s) = rid (heap w toggledRole))
               then settleToggledRoles member msg rest (Some toggledRole) w
               else
                 let role = firstRole w (mguild member) (heap w toggledRole);
                     w1 = snd (checkRolesPermissions TAKE toggledRole member w)
                 in case role of
                      None \<Rightarrow> (TypeError, skippedRole, w1)
                    | Some roleID \<Rightarrow>
                        if editable w1 roleID
                           \<and> preRoleRemoveHook w1 member roleID (heap w1 toggledRole)
                        then
                          let w2 = spliceWinner toggledRole (mid member) w1;
                              w3 = (if rid (heap w2 toggledRole) \<in> memberRoles w2 member
                                    then emit (REACTION_ROLE_REMOVE member roleID)
                                           (rolesRemove member roleID w2)
                                    else w2);
                              w4 = (if mid member \<in> set users
                                    then usersRemove reaction (mid member) w3 else w3)
                          in settleToggledRoles member msg rest skippedRole w4
                        else settleToggledRoles member msg rest skippedRole
                               (usersRemove reaction (mid member) w1))"

text \<open>The part of the callback after the loop: the kept reaction role is given.\<close>

definition giveSkippedRole :: "GuildMember \<Rightarrow> Message \<Rightarrow> ref \<Rightarrow> world \<Rightarrow> outcome \<times> world" where
  "giveSkippedRole member msg skippedRole w =
     (let reaction = findReaction w msg (emoji (heap w skippedRole))
      in case msg_guild msg of
           None \<Rightarrow> (TypeError, w)
         | Some g \<Rightarrow>
             let role = firstRole w g (heap w skippedRole);
                 w1 = snd (checkRolesPermissions GIVE skippedRole member w)
             in case role of
                  None \<Rightarrow> (TypeError, w1)
                | Some roleID \<Rightarrow>
                    if \<not> editable w1 roleID
                    then (case reaction of
                            None \<Rightarrow> (TypeError, w1)
                          | Some r \<Rightarrow> (Done, usersRemove r (mid member) w1))
                    else
                      let ok = fst (checkRequirements skippedRole reaction member w1);
                          w2 = snd (checkRequirements skippedRole reaction member w1)
                      in case ok of
                           None \<Rightarrow> (Pending, w2)
                         | Some False \<Rightarrow>
                             (case reaction of
                                None \<Rightarrow> (TypeError, w2)
                              | Some r \<Rightarrow> (Done, usersRemove r (mid member) w2))
                         | Some True \<Rightarrow>
                             if \<not> preRoleAddHook w2 member roleID (heap w2 skippedRole)
                             then (case reaction of
                                     None \<Rightarrow> (TypeError, w2)
                                   | Some r \<Rightarrow> (Done, usersRemove r (mid member) w2))
                             else
                               let w3 = (if mid member \<notin> set (winners (heap w2 skippedRole))
                                         then setWinners skippedRole
                                                (winners (heap w2 skippedRole) @ [mid member]) w2
                                         else w2)
                               in if roleID \<notin> memberRoles w3 member
                                  then (Done, emit (REACTION_ROLE_ADD member roleID)
                                                (rolesAdd member roleID w3))
                                  else (Done, w3))"

text \<open>
  The callback of a member's timer, run under the member's lock:
  \<^verbatim>\<open>this.reactionRoles.filter((rr) => rr.message === message.id && rr.isToggle)\<close>,
  the loop, then the kept reaction role. The timer that ran is no longer pending.
\<close>

definition toggledRolesOf :: "world \<Rightarrow> Message \<Rightarrow> ref list" where
  "toggledRolesOf w msg =
     filter (\<lambda>a. message (heap w a) = msg_id msg \<and> isToggle (heap w a))
       (map snd (reactionRoles w))"

definition toggledRolesTimeout :: "snowflake \<Rightarrow> world \<Rightarrow> outcome \<times> world" where
  "toggledRolesTimeout key w =
     (case map_of (timeouts w) key of
        None \<Rightarrow> (Done, w)
      | Some t \<Rightarrow>
          let w0 = w\<lparr>timeouts := collectionDelete key (timeouts w)\<rparr>;
              r = settleToggledRoles (t_member t) (t_message t)
                    (toggledRolesOf w0 (t_message t)) (t_skippedRole t) w0
          in case r of
               (Done, None, w1) \<Rightarrow> (Done, w1)
             | (Done, Some s, w1) \<Rightarrow> giveSkippedRole (t_member t) (t_message t) s w1
             | (err, _, w1) \<Rightarrow> (err, w1))"

section \<open>Reaction events\<close>

text \<open>\<^verbatim>\<open>__onReactionAdd\<close> and \<^verbatim>\<open>__onReactionRemove\<close>: the reaction of the
  event and the id of the user.\<close>

definition onReaction :: "ActionType \<Rightarrow> MessageReaction \<Rightarrow> snowflake \<Rightarrow> world \<Rightarrow> outcome \<times> world" where
  "onReaction action msgReaction user w =
     (if user \<in> bots w then (Done, w)
      else case msg_guild (r_message msgReaction) of
             None \<Rightarrow> (TypeError, w)
           | Some g \<Rightarrow>
               if user \<notin> guildMembers w g then (Done, w)
               else case map_of (reactionRoles w)
                           (msg_id (r_message msgReaction) @ ''-'' @ r_emoji msgReaction) of
                      None \<Rightarrow> (Done, w)
                    | Some reactionRole \<Rightarrow>
                        handleReactionRoleAction action \<lparr>mid = user, mguild = g\<rparr>
                          reactionRole msgReaction w)"

definition onReactionAdd :: "MessageReaction \<Rightarrow> snowflake \<Rightarrow> world \<Rightarrow> outcome \<times> world" where
  "onReactionAdd msgReaction user w = onReaction GIVE msgReaction user w"

definition onReactionRemove :: "MessageReaction \<Rightarrow> snowflake \<Rightarrow> world \<Rightarrow> outcome \<times> world" where
  "onReactionRemove msgReaction user w = onReaction TAKE msgReaction user w"

section \<open>Deleting a reaction role\<close>

text \<open>
  \<^verbatim>\<open>deleteReactionRole({ reactionRole, message, emoji }, deleted)\<close>. The message
  argument is the id of the message and the emoji argument the identifier the emoji
  resolves to. The promise resolves to the reaction role or rejects with an
  \<^verbatim>\<open>Error\<close>. Without the disabled property and without a database the
  reaction role also leaves the registry.
\<close>

definition deleteReactionRole ::
  "ref option \<Rightarrow> snowflake option \<Rightarrow> string option \<Rightarrow> world \<Rightarrow> outcome \<times> ref option \<times> world" where
  "deleteReactionRole reactionRole0 msg0 emoji0 w =
     (let looked =
            (case (msg0, emoji0) of
               (Some m, Some e) \<Rightarrow>
                 Some (find (\<lambda>a. message (heap w a) = m \<and> emoji (heap w a) = e)
                         (map snd (reactionRoles w)))
             | _ \<Rightarrow> None)
      in if looked = Some None then (ThrownError, None, w)
         else case (case looked of Some found \<Rightarrow> found | None \<Rightarrow> reactionRole0) of
                None \<Rightarrow> (ThrownError, None, w)
              | Some a \<Rightarrow>
                  let w1 = setDisabled a w
                  in if disabledProperty w1 then (Done, Some a, w1)
                     else if mongoose w1 then (Done, Some a, w1)
                     else (Done, Some a,
                           w1\<lparr>reactionRoles :=
                                collectionDelete (rid (heap w1 a)) (reactionRoles w1)\<rparr>))"

section \<open>All reactions of a message removed\<close>

text \<open>The innermost loop of \<^verbatim>\<open>__onRemoveAllReaction\<close>, over the roles with
  permission of one winner: the accumulators are \<^verbatim>\<open>membersAffected\<close> and
  \<^verbatim>\<open>rolesAffected\<close>.\<close>

fun removeAllRoles ::
  "GuildMember \<Rightarrow> ref \<Rightarrow> snowflake list \<Rightarrow> GuildMember list \<times> snowflake list \<times> world
     \<Rightarrow> GuildMember list \<times> snowflake list \<times> world" where
  "removeAllRoles member reactionRole [] acc = acc"
| "removeAllRoles member reactionRole (role # rs) (membersAffected, rolesAffected, w) =
     removeAllRoles member reactionRole rs
       (let hooked = preRoleRemoveHook w member role (heap w reactionRole);
            w1 = (if hooked then rolesRemove member role w else w);
            membersAffected1 =
              (if hooked \<and> member \<notin> set membersAffected
               then membersAffected @ [member] else membersAffected);
            rolesAffected1 =
              (if role \<notin> set rolesAffected then rolesAffected @ [role] else rolesAffected)
        in (membersAffected1, rolesAffected1, w1))"

text \<open>The loop over the winners of one reaction role; the last accumulator is
  \<^verbatim>\<open>reactionsTaken\<close>. A message without a guild makes the member lookup
  throw.\<close>

fun removeAllWinners ::
  "Message \<Rightarrow> ref \<Rightarrow> snowflake list
     \<Rightarrow> GuildMember list \<times> snowflake list \<times> nat \<times> world
     \<Rightarrow> outcome \<times> GuildMember list \<times> snowflake list \<times> nat \<times> world" where
  "removeAllWinners msg reactionRole [] acc = (Done, acc)"
| "removeAllWinners msg reactionRole (winnerId # ws)
       (membersAffected, rolesAffected, reactionsTaken, w) =
     (case msg_guild msg of
        None \<Rightarrow> (TypeError, membersAffected, rolesAffected, reactionsTaken, w)
      | Some g \<Rightarrow>
          if winnerId \<notin> guildMembers w g
          then removeAllWinners msg reactionRole ws
                 (membersAffected, rolesAffected, reactionsTaken, w)
          else
            let member = \<lparr>mid = winnerId, mguild = g\<rparr>;
                rolesWithPermission = fst (checkRolesPermissions TAKE reactionRole member w);
                w1 = snd (checkRolesPermissions TAKE reactionRole member w);
                r = removeAllRoles member reactionRole rolesWithPermission
                      (membersAffected, rolesAffected, w1)
            in removeAllWinners msg reactionRole ws
                 (fst r, fst (snd r), reactionsTaken + 1, snd (snd r)))"

text \<open>The loop over the reaction roles of the message.\<close>

fun removeAllReactionRoles ::
  "Message \<Rightarrow> ref list
     \<Rightarrow> GuildMember list \<times> snowflake list \<times> nat \<times> world
     \<Rightarrow> outcome \<times> GuildMember list \<times> snowflake list \<times> nat \<times> world" where
  "removeAllReactionRoles msg [] acc = (Done, acc)"
| "removeAllReactionRoles msg (reactionRole # rest)
       (membersAffected, rolesAffected, reactionsTaken, w) =
     (case removeAllWinners msg reactionRole (winners (heap w reactionRole))
             (membersAffected, rolesAffected, reactionsTaken, w) of
        (Done, m1, r1, n1, w1) \<Rightarrow>
          (case deleteReactionRole (Some reactionRole) None None w1 of
             (Done, _, w2) \<Rightarrow> removeAllReactionRoles msg rest (m1, r1, n1, w2)
           | (err, _, w2) \<Rightarrow> (err, m1, r1, n1, w2))
      | (err, acc1) \<Rightarrow> (err, acc1))"

text \<open>\<^verbatim>\<open>__onRemoveAllReaction\<close>.\<close>

definition onRemoveAllReaction :: "Message \<Rightarrow> world \<Rightarrow> outcome \<times> world" where
  "onRemoveAllReaction msg w =
     (let messageReactionsRoles =
            filter (\<lambda>a. message (heap w a) = msg_id msg) (map snd (reactionRoles w))
      in if length messageReactionsRoles \<le> 0 then (Done, w)
         else case removeAllReactionRoles msg messageReactionsRoles ([], [], 0, w) of
                (Done, membersAffected, rolesAffected, reactionsTaken, w1) \<Rightarrow>
                  (Done, emit (ALL_REACTIONS_REMOVE msg rolesAffected membersAffected
                                 reactionsTaken) w1)
              | (err, _, _, _, w1) \<Rightarrow> (err, w1))"

section \<open>Something a reaction role refers to was deleted\<close>

text \<open>
  \<^verbatim>\<open>__handleDeleted\<close>. The reaction it looks for is found by a test that does
  not read the emoji of the reaction it is applied to (the reaction itself is handed
  to \<^verbatim>\<open>__resolveReactionEmoji\<close>), so the first reaction of the cache is the one
  found, if any is; \<^verbatim>\<open>reaction.remove()\<close> takes it out of the cache.
\<close>

definition handleDeleted :: "ref \<Rightarrow> resolvable \<Rightarrow> world \<Rightarrow> outcome \<times> world" where
  "handleDeleted reactionRole guildResolvable w =
     (let rr = heap w reactionRole;
          delete = (case deleteReactionRole (Some reactionRole) None None w of
                      (out, _, w1) \<Rightarrow> (out, w1))
      in case guildsResolve w guildResolvable of
           None \<Rightarrow> delete
         | Some g \<Rightarrow>
             if channel rr \<notin> guildChannels w g then delete
             else case messagesFetch w (channel rr) (message rr) of
                    Rejected code \<Rightarrow> (ApiError code, w)
                  | Nothing \<Rightarrow> delete
                  | Fetched \<Rightarrow>
                      (case reactions w (message rr) of
                         [] \<Rightarrow> delete
                       | reaction # others \<Rightarrow>
                           if rid rr = message rr @ ''-'' @ identifierOfReaction w
                           then (Done, w\<lparr>reactions := (reactions w)(message rr := others)\<rparr>)
                           else delete))"

text \<open>The handlers of \<^verbatim>\<open>roleDelete\<close>, \<^verbatim>\<open>emojiDelete\<close>,
  \<^verbatim>\<open>guildDelete\<close>, \<^verbatim>\<open>channelDelete\<close>, \<^verbatim>\<open>messageDelete\<close> and
  \<^verbatim>\<open>messageDeleteBulk\<close>: \<^verbatim>\<open>this.reactionRoles.find\<close> gives the first
  reaction role of the registry that passes the test.\<close>

definition onDelete :: "(ReactionRole \<Rightarrow> bool) \<Rightarrow> resolvable \<Rightarrow> world \<Rightarrow> outcome \<times> world" where
  "onDelete test guildResolvable w =
     (case find (\<lambda>a. test (heap w a)) (map snd (reactionRoles w)) of
        None \<Rightarrow> (Done, w)
      | Some reactionRole \<Rightarrow> handleDeleted reactionRole guildResolvable w)"

definition onRoleDelete :: "snowflake \<Rightarrow> world \<Rightarrow> outcome \<times> world" where
  "onRoleDelete role w = onDelete (\<lambda>rr. role \<in> set (roles rr)) (ARole role) w"

definition onEmojiDelete :: "string \<Rightarrow> world \<Rightarrow> outcome \<times> world" where
  "onEmojiDelete emojiIdentifier w =
     onDelete (\<lambda>rr. emoji rr = emojiIdentifier) (AnEmoji emojiIdentifier) w"

definition onGuildDelete :: "snowflake \<Rightarrow> world \<Rightarrow> outcome \<times> world" where
  "onGuildDelete g w = onDelete (\<lambda>rr. guild rr = g) (AGuild g) w"

definition onChannelDelete :: "snowflake \<Rightarrow> world \<Rightarrow> outcome \<times> world" where
  "onChannelDelete c w = onDelete (\<lambda>rr. channel rr = c) (AChannel c) w"

definition messageDeleteHandler :: "snowflake \<Rightarrow> world \<Rightarrow> outcome \<times> world" where
  "messageDeleteHandler m w = onDelete (\<lambda>rr. message rr = m) (AMessage m) w"

text \<open>The bulk handler does not wait for the single ones: what they reject with is
  lost.\<close>

fun onMessageDeleteBulk :: "snowflake list \<Rightarrow> world \<Rightarrow> world" where
  "onMessageDeleteBulk [] w = w"
| "onMessageDeleteBulk (m # ms) w = onMessageDeleteBulk ms (snd (messageDeleteHandler m w))"

section \<open>The ready timer\<close>

text \<open>\<^verbatim>\<open>__readyTimeout\<close>: the pending timer is cleared; unless the manager is
  ready, a new one is set to run 5000 milliseconds from now.\<close>

definition readyTimeout :: "world \<Rightarrow> world" where
  "readyTimeout w = (if isReady w then w\<lparr>readyTimer := None\<rparr>
                     else w\<lparr>readyTimer := Some (now w + 5000)\<rparr>)"

text \<open>The callback of the ready timer.\<close>

definition readyCallback :: "world \<Rightarrow> world" where
  "readyCallback w = emit READY (w\<lparr>isReady := True, readyAt := Some (now w)\<rparr>)"

text \<open>Time passes: \<open>d\<close> milliseconds in which the manager is called by nothing but
  its ready timer, which runs at its deadline if that is reached.\<close>

definition elapse :: "nat \<Rightarrow> world \<Rightarrow> world" where
  "elapse d w =
     (case readyTimer w of
        None \<Rightarrow> w\<lparr>now := now w + d\<rparr>
      | Some deadline \<Rightarrow>
          if deadline \<le> now w + d
          then (readyCallback (w\<lparr>now := max (now w) deadline, readyTimer := None\<rparr>))
                 \<lparr>now := now w + d\<rparr>
          else w\<lparr>now := now w + d\<rparr>)"

section \<open>Boot\<close>

text \<open>
  \<^verbatim>\<open>__parseStorage\<close>: \<open>stored\<close> are the records read from the JSON file and
  the database, in that order; each one that has a message and is not disabled
  becomes a new object (\<^verbatim>\<open>ReactionRole.fromJSON\<close>) under its id.
\<close>

fun parseStorage :: "ReactionRole list \<Rightarrow> world \<Rightarrow> world" where
  "parseStorage [] w = w"
| "parseStorage (role # rest) w =
     parseStorage rest
       (if message role = [] \<or> disabled role then w
        else w\<lparr>heap := (heap w)(nextRef w := role),
               nextRef := nextRef w + 1,
               reactionRoles := collectionSet (rid role) (nextRef w) (reactionRoles w)\<rparr>)"

text \<open>The loop over the users who reacted: bots are skipped, a user who is not a
  member of the guild loses the reaction, every other one is handled as a
  \<^verbatim>\<open>GIVE\<close>.\<close>

fun bootUsers ::
  "snowflake \<Rightarrow> ref \<Rightarrow> MessageReaction \<Rightarrow> snowflake list \<Rightarrow> world \<Rightarrow> outcome \<times> world" where
  "bootUsers g reactionRole reaction [] w = (Done, w)"
| "bootUsers g reactionRole reaction (user # usersArray) w =
     (if user \<in> bots w then bootUsers g reactionRole reaction usersArray w
      else if user \<notin> guildMembers w g
      then bootUsers g reactionRole reaction usersArray (usersRemove reaction user w)
      else
        let r = handleReactionRoleAction GIVE \<lparr>mid = user, mguild = g\<rparr> reactionRole reaction w
        in if fst r = Done then bootUsers g reactionRole reaction usersArray (snd r)
           else r)"

text \<open>
  The loop over \<^verbatim>\<open>reactionRole.winners\<close>, by index \<open>j\<close> into the list as it
  is at each turn: a winner who is not a member of the guild is spliced out (and
  \<open>j\<close> still goes up), a winner who no longer reacts is handled as a
  \<^verbatim>\<open>TAKE\<close>. \<open>users\<close> are the users fetched before the first loop.
\<close>

function bootWinners ::
  "snowflake \<Rightarrow> ref \<Rightarrow> MessageReaction \<Rightarrow> snowflake list \<Rightarrow> nat \<Rightarrow> world \<Rightarrow> outcome \<times> world" where
  "bootWinners g reactionRole reaction users j w =
     (if j < length (winners (heap w reactionRole))
      then
        if winners (heap w reactionRole) ! j \<notin> guildMembers w g
        then bootWinners g reactionRole reaction users (j + 1)
               (setWinners reactionRole
                  (take j (winners (heap w reactionRole))
                     @ drop (j + 1) (winners (heap w reactionRole))) w)
        else if winners (heap w reactionRole) ! j \<in> bots w
        then bootWinners g reactionRole reaction users (j + 1) w
        else if winners (heap w reactionRole) ! j \<notin> set users
        then
          if fst (handleReactionRoleAction TAKE
                    \<lparr>mid = winners (heap w reactionRole) ! j, mguild = g\<rparr>
                    reactionRole reaction w) = Done
          then bootWinners g reactionRole reaction users (j + 1)
                 (snd (handleReactionRoleAction TAKE
                         \<lparr>mid = winners (heap w reactionRole) ! j, mguild = g\<rparr>
                         reactionRole reaction w))
          else handleReactionRoleAction TAKE
                 \<lparr>mid = winners (heap w reactionRole) ! j, mguild = g\<rparr>
                 reactionRole reaction w
        else bootWinners g reactionRole reaction users (j + 1) w
      else (Done, w))"
  by pat_completeness auto

text \<open>
  The body of the loop of \<^verbatim>\<open>__resfreshOnBoot\<close> for one reaction role. The
  calls of \<^verbatim>\<open>__handleDeleted\<close> are not awaited: what they reject with is
  lost. A reaction role whose guild, channel or message is not found is passed over
  without a call of \<^verbatim>\<open>__readyTimeout\<close>. Inside the \<^verbatim>\<open>try\<close>, a
  reaction that is not found makes \<^verbatim>\<open>reaction.partial\<close> throw; an error
  with code 10008 is caught, every other one ends the boot.
\<close>

definition bootReactionRole :: "ref \<Rightarrow> world \<Rightarrow> outcome \<times> world" where
  "bootReactionRole reactionRole w =
     (let rr = heap w reactionRole
      in if guild rr \<notin> guildsCache w
         then (Done, snd (handleDeleted reactionRole Undefined w))
         else if channel rr \<notin> guildChannels w (guild rr)
         then (Done, snd (handleDeleted reactionRole (AGuild (guild rr)) w))
         else if messagesFetch w (channel rr) (message rr) \<noteq> Fetched then (Done, w)
         else
           let msg = \<lparr>msg_id = message rr, msg_channel = channel rr,
                      msg_guild = Some (guild rr)\<rparr>;
               w1 = (if map_of (reactions w (message rr)) (emoji rr) = None
                     then react (message rr) (emoji rr) w else w);
               tried =
                 (case find (\<lambda>(e, us). rid rr = message rr @ ''-'' @ e)
                         (reactions w1 (message rr)) of
                    None \<Rightarrow> (TypeError, w1)
                  | Some (e, users) \<Rightarrow>
                      let reaction = \<lparr>r_message = msg, r_emoji = e\<rparr>;
                          given = bootUsers (guild rr) reactionRole reaction users w1
                      in if fst given = Done
                         then bootWinners (guild rr) reactionRole reaction users 0 (snd given)
                         else given)
           in if fst tried = Done then (Done, readyTimeout (snd tried))
              else if fst tried = ApiError 10008
              then (Done, snd (handleDeleted reactionRole (AGuild (guild rr)) (snd tried)))
              else tried)"

text \<open>The loop over \<^verbatim>\<open>this.reactionRoles.array()\<close>.\<close>

fun bootReactionRoles :: "ref list \<Rightarrow> world \<Rightarrow> outcome \<times> world" where
  "bootReactionRoles [] w = (Done, w)"
| "bootReactionRoles (reactionRole # rest) w =
     (let r = bootReactionRole reactionRole w
      in if fst r = Done then bootReactionRoles rest (snd r) else r)"

text \<open>\<^verbatim>\<open>__resfreshOnBoot\<close>, the handler of the client's \<^verbatim>\<open>ready\<close>
  event; \<open>stored\<close> is what the storage holds.\<close>

definition resfreshOnBoot :: "ReactionRole list \<Rightarrow> world \<Rightarrow> outcome \<times> world" where
  "resfreshOnBoot stored w =
     (if \<not> storage w then (Done, w)
      else let w1 = parseStorage stored w
           in bootReactionRoles (map snd (reactionRoles w1)) w1)"

section \<open>Creating a reaction role\<close>

text \<open>
  The arguments of \<^verbatim>\<open>createReactionRole\<close> as the function reads them:
  the message (\<open>None\<close> when the argument is not a \<^verbatim>\<open>Message\<close>); what
  \<^verbatim>\<open>message.guild.roles.resolveID\<close> gives for each role; the identifier
  \<^verbatim>\<open>__resolveReactionEmoji\<close> gives for the parsed emoji (\<open>None\<close> or empty
  when it gives nothing) and whether the parsed emoji has an id the client does not
  know; the type (\<open>None\<close> when absent or falsy), as
  \<^verbatim>\<open>isValidReactionRoleType\<close> and the getters of the class read it; the
  maximum (\<open>None\<close> when absent); the requirements.
\<close>

record rrType =
  isValidReactionRoleType :: bool
  typeIsToggle :: bool
  typeIsReversed :: bool
  typeIsJustWin :: bool
  typeIsJustLose :: bool

record createOptions =
  c_message :: "Message option"
  c_roles :: "snowflake option list"
  c_emoji :: "string option"
  c_emojiUnknown :: bool
  c_type :: "rrType option"
  c_max :: "int option"
  c_boost :: bool
  c_verifiedDeveloper :: bool

definition MAX_SAFE_INTEGER :: int where
  "MAX_SAFE_INTEGER = 9007199254740991"

text \<open>\<^verbatim>\<open>ReactionRoleType.NORMAL\<close>: none of the four getters holds.\<close>

definition NORMAL :: rrType where
  "NORMAL = \<lparr>isValidReactionRoleType = True, typeIsToggle = False, typeIsReversed = False,
             typeIsJustWin = False, typeIsJustLose = False\<rparr>"

text \<open>
  The class \<^verbatim>\<open>ReactionRole\<close> is not part of the sources
  (\<^verbatim>\<open>./reactionRole\<close>), so what its constructor makes of the object it is
  handed is not fixed here: \<^verbatim>\<open>createReactionRole\<close> takes the constructor as
  the parameter \<open>construct\<close>. This is the object literal of the call
  \<^verbatim>\<open>new ReactionRole({message, roles, emoji, type, max, requirements})\<close>.
\<close>

record ReactionRoleData =
  d_message :: Message
  d_roles :: "snowflake list"
  d_emoji :: string
  d_type :: rrType
  d_max :: int
  d_boost :: bool
  d_verifiedDeveloper :: bool

text \<open>
  \<^verbatim>\<open>createReactionRole\<close>: the promise rejects with an \<^verbatim>\<open>Error\<close>
  (\<open>Inl\<close>) or resolves to the new reaction role, with the world it leaves
  (\<open>Inr\<close>). The new object goes into the registry under the id it has.
\<close>

definition createReactionRole ::
  "(ReactionRoleData \<Rightarrow> ReactionRole) \<Rightarrow> createOptions \<Rightarrow> world \<Rightarrow> string + (ref \<times> world)" where
  "createReactionRole construct opts w =
     (case c_message opts of
        None \<Rightarrow> Inl ''Bad input: addRole({...}) message must be a Message Object.''
      | Some msg \<Rightarrow>
          (case msg_guild msg of
             None \<Rightarrow> Inl ''Bad input: message must be a guild message, cannot create reaction role in DM channels.''
           | Some g \<Rightarrow>
               if (case c_type opts of None \<Rightarrow> False | Some t \<Rightarrow> \<not> isValidReactionRoleType t)
               then Inl ''Bad input: Invalid reaction role type''
               else
                 let type' = (case c_type opts of None \<Rightarrow> NORMAL | Some t \<Rightarrow> t);
                     max' = (case c_max opts of
                              None \<Rightarrow> MAX_SAFE_INTEGER
                            | Some m \<Rightarrow>
                                if m = 0 \<or> m > MAX_SAFE_INTEGER \<or> m < 0
                                then MAX_SAFE_INTEGER else m);
                     roles' = concat (map (\<lambda>r. case r of None \<Rightarrow> [] | Some role \<Rightarrow> [role])
                                       (c_roles opts))
                 in if length roles' = 0 then Inl ''Bad input: I cannot resolve the roles''
                    else
                      case c_emoji opts of
                        None \<Rightarrow> Inl ''Bad input: I cannot resolve emoji''
                      | Some emoji' \<Rightarrow>
                          if emoji' = [] then Inl ''Bad input: I cannot resolve emoji''
                          else if c_emojiUnknown opts then Inl ''Bad input: I cannot find emoji''
                          else
                            let w1 = react (msg_id msg) emoji' w;
                                reactionRole =
                                  construct
                                    \<lparr>d_message = msg, d_roles = roles', d_emoji = emoji',
                                     d_type = type', d_max = max',
                                     d_boost = c_boost opts,
                                     d_verifiedDeveloper = c_verifiedDeveloper opts\<rparr>
                            in Inr (nextRef w1,
                                    w1\<lparr>heap := (heap w1)(nextRef w1 := reactionRole),
                                       nextRef := nextRef w1 + 1,
                                       reactionRoles :=
                                         collectionSet (rid reactionRole) (nextRef w1)
                                           (reactionRoles w1)\<rparr>)))"

section \<open>The constructor\<close>

text \<open>
  The options of the constructor that the handlers read (\<open>None\<close> when an option is
  absent or not of its type) and the manager it builds on a client: an empty
  registry, no timers, not ready, nothing warned, nothing emitted; storage and the
  disabled property default to true, the two hooks to functions that return true.
  The database link is left out: \<^verbatim>\<open>this.mongoose\<close> is set at boot.
\<close>

record managerOptions =
  o_storage :: "bool option"
  o_disabledProperty :: "bool option"
  o_preRoleAddHook :: "(GuildMember \<Rightarrow> snowflake \<Rightarrow> ReactionRole \<Rightarrow> bool) option"
  o_preRoleRemoveHook :: "(GuildMember \<Rightarrow> snowflake \<Rightarrow> ReactionRole \<Rightarrow> bool) option"

definition constructor :: "managerOptions \<Rightarrow> world \<Rightarrow> world" where
  "constructor opts client =
     client\<lparr>reactionRoles := [], timeouts := [], readyTimer := None, busy := {},
            isReady := False, readyAt := None,
            storage := (case o_storage opts of None \<Rightarrow> True | Some b \<Rightarrow> b),
            mongoose := False,
            disabledProperty := (case o_disabledProperty opts of None \<Rightarrow> True | Some b \<Rightarrow> b),
            preRoleAddHook :=
              (case o_preRoleAddHook opts of None \<Rightarrow> (\<lambda>member role rr. True) | Some h \<Rightarrow> h),
            preRoleRemoveHook :=
              (case o_preRoleRemoveHook opts of None \<Rightarrow> (\<lambda>member role rr. True) | Some h \<Rightarrow> h),
            withoutPermissionsWarned := {}, emitted := []\<rparr>"

definition defaults :: managerOptions where
  "defaults = \<lparr>o_storage = None, o_disabledProperty = None,
               o_preRoleAddHook = None, o_preRoleRemoveHook = None\<rparr>"

text \<open>A client that knows no guild, and a reaction role with nothing set, to build
  examples from.\<close>

definition blank :: ReactionRole where
  "blank = \<lparr>rid = [], message = [], channel = [], guild = [], emoji = [], roles = [],
            rmax = 0, isToggle = False, isReversed = False, isJustWin = False,
            isJustLose = False, boost = False, verifiedDeveloper = False,
            disabled = False, winners = []\<rparr>"

definition offline :: world where
  "offline = \<lparr>heap = (\<lambda>a. blank), nextRef = 0, reactionRoles = [], timeouts = [],
              readyTimer = None, busy = {}, isReady = False, readyAt = None,
              storage = True, mongoose = False, disabledProperty = True,
              preRoleAddHook = (\<lambda>member role rr. True),
              preRoleRemoveHook = (\<lambda>member role rr. True),
              withoutPermissionsWarned = {}, emitted = [], now = 0,
              guildsCache = {}, guildsResolve = (\<lambda>x. None), guildChannels = (\<lambda>g. {}),
              messagesFetch = (\<lambda>c m. Nothing), guildMembers = (\<lambda>g. {}),
              guildRoles = (\<lambda>g. {}), editable = (\<lambda>role. False),
              memberRoles = (\<lambda>member. {}), reactions = (\<lambda>m. []), bots = {},
              clientUser = ''0'', identifierOfReaction = ''null'',
              boosters = {}, verifiedDevelopers = {}\<rparr>"

section \<open>Vocabulary of the statements\<close>

text \<open>The events that tell of a role given or taken.\<close>

definition roleEvent :: "event \<Rightarrow> bool" where
  "roleEvent e = (case e of REACTION_ROLE_ADD member role \<Rightarrow> True
                           | REACTION_ROLE_REMOVE member role \<Rightarrow> True | _ \<Rightarrow> False)"

text \<open>A \<^verbatim>\<open>missingPermissions\<close> event that names a role for a user.\<close>

definition missingPermission :: "snowflake \<Rightarrow> snowflake \<Rightarrow> event \<Rightarrow> bool" where
  "missingPermission role user e =
     (case e of
        MISSING_PERMISSIONS action member rs rr \<Rightarrow> mid member = user \<and> role \<in> set rs
      | _ \<Rightarrow> False)"

text \<open>
  A sequence of calls of the permission check. Only the permission check writes the
  set of warned pairs and emits \<^verbatim>\<open>missingPermissions\<close>; everything else may
  have changed between two calls, so each call comes with the world it sees, into
  which the set and the log of the previous call are carried.
\<close>

fun permissionChecks ::
  "(ActionType \<times> ref \<times> GuildMember \<times> world) list \<Rightarrow> world \<Rightarrow> world" where
  "permissionChecks [] w = w"
| "permissionChecks ((action, reactionRole, member, seen) # calls) w =
     permissionChecks calls
       (snd (checkRolesPermissions action reactionRole member
               (seen\<lparr>withoutPermissionsWarned := withoutPermissionsWarned w,
                     emitted := emitted w\<rparr>)))"

text \<open>The invariant of the warned set, for one role and one user: at most one event
  names the pair, and if one does the pair is in the set.\<close>

definition warnedOnce :: "snowflake \<Rightarrow> snowflake \<Rightarrow> world \<Rightarrow> bool" where
  "warnedOnce role user w =
     (length (filter (missingPermission role user) (emitted w)) \<le> 1
      \<and> (filter (missingPermission role user) (emitted w) = []
           \<or> role @ ''-'' @ user \<in> withoutPermissionsWarned w))"

text \<open>Two worlds agree on what the handler reads and never writes.\<close>

definition sameSettings :: "world \<Rightarrow> world \<Rightarrow> bool" where
  "sameSettings w' w =
     (bots w' = bots w \<and> guildMembers w' = guildMembers w \<and> guildRoles w' = guildRoles w
      \<and> editable w' = editable w \<and> preRoleAddHook w' = preRoleAddHook w
      \<and> preRoleRemoveHook w' = preRoleRemoveHook w \<and> boosters w' = boosters w
      \<and> verifiedDevelopers w' = verifiedDevelopers w \<and> isReady w' = isReady w
      \<and> readyTimer w' = readyTimer w \<and> now w' = now w
      \<and> reactionRoles w' = reactionRoles w)"

text \<open>
  What the ready timer sees of a boot: a reaction role completes its turn of the loop
  (the loop calls \<^verbatim>\<open>__readyTimeout\<close>), or time passes.
\<close>

datatype bootStep = Completes | Elapses nat

fun bootSteps :: "bootStep list \<Rightarrow> world \<Rightarrow> world" where
  "bootSteps [] w = w"
| "bootSteps (Completes # steps) w = bootSteps steps (readyTimeout w)"
| "bootSteps (Elapses d # steps) w = bootSteps steps (elapse d w)"

text \<open>The invariant of the ready timer: a manager that is ready has no pending timer
  and has emitted \<^verbatim>\<open>ready\<close> once; one that is not has not emitted it.\<close>

definition readyOnce :: "world \<Rightarrow> bool" where
  "readyOnce w =
     (if isReady w then readyTimer w = None \<and> length (filter (\<lambda>e. e = READY) (emitted w)) = 1
      else filter (\<lambda>e. e = READY) (emitted w) = [])"

section \<open>Examples\<close>

text \<open>A client in guild 1 with channel 2, message 3 in it, the members 20, 21 and
  22, the bot 0 and the roles 10, 11 and 12, of which 11 is not editable. A second
  message, 4, is in the same channel.\<close>

definition theMessage :: Message where
  "theMessage = \<lparr>msg_id = ''3'', msg_channel = ''2'', msg_guild = Some ''1''\<rparr>"

definition otherMessage :: Message where
  "otherMessage = \<lparr>msg_id = ''4'', msg_channel = ''2'', msg_guild = Some ''1''\<rparr>"

definition theGuild :: world where
  "theGuild = offline\<lparr>guildsCache := {''1''},
       guildsResolve := (\<lambda>x. case x of AMessage m \<Rightarrow> None | Undefined \<Rightarrow> None | _ \<Rightarrow> Some ''1''),
       guildChannels := (\<lambda>g. if g = ''1'' then {''2''} else {}),
       messagesFetch := (\<lambda>c m. if c = ''2'' \<and> m = ''3'' then Fetched else Rejected 10008),
       guildMembers := (\<lambda>g. if g = ''1'' then {''20'', ''21'', ''22''} else {}),
       guildRoles := (\<lambda>g. if g = ''1'' then {''10'', ''11'', ''12''} else {}),
       editable := (\<lambda>role. role = ''10'' \<or> role = ''12''),
       bots := {''0''}\<rparr>"

text \<open>A manager with one reaction role, on message 3 with emoji a, that gives role
  10 and was won by member 20.\<close>

definition oneRole :: world where
  "oneRole = (constructor defaults theGuild)
     \<lparr>heap := (\<lambda>a. blank)(0 := blank\<lparr>rid := ''3-a'', message := ''3'', channel := ''2'',
                 guild := ''1'', emoji := ''a'', roles := [''10''], winners := [''20'']\<rparr>),
      nextRef := 1, reactionRoles := [(''3-a'', 0)],
      memberRoles := (\<lambda>member. if mid member = ''20'' then {''10''} else {})\<rparr>"

text \<open>Two members, the reaction with emoji a on message 3, and a manager whose one
  reaction role gives role 11, which the bot may not edit; member 20 won it, holds
  the role and still reacts.\<close>

definition member20 :: GuildMember where
  "member20 = \<lparr>mid = ''20'', mguild = ''1''\<rparr>"

definition member21 :: GuildMember where
  "member21 = \<lparr>mid = ''21'', mguild = ''1''\<rparr>"

definition reactionA :: MessageReaction where
  "reactionA = \<lparr>r_message = theMessage, r_emoji = ''a''\<rparr>"

definition lockedRole :: world where
  "lockedRole = (constructor defaults theGuild)
     \<lparr>heap := (\<lambda>a. blank)(0 := blank\<lparr>rid := ''3-a'', message := ''3'', channel := ''2'',
                 guild := ''1'', emoji := ''a'', roles := [''11''], winners := [''20'']\<rparr>),
      nextRef := 1, reactionRoles := [(''3-a'', 0)],
      memberRoles := (\<lambda>member. if mid member = ''20'' then {''11''} else {}),
      reactions := (\<lambda>m. if m = ''3'' then [(''a'', [''0'', ''20''])] else [])\<rparr>"

text \<open>The same manager when the reaction role has the maximum 1, which its one
  winner fills, and when the reaction role is a toggled one.\<close>

definition lockedFull :: world where
  "lockedFull = lockedRole\<lparr>heap := (heap lockedRole)(0 := (heap lockedRole 0)\<lparr>rmax := 1\<rparr>)\<rparr>"

definition lockedToggle :: world where
  "lockedToggle =
     lockedRole\<lparr>heap := (heap lockedRole)(0 := (heap lockedRole 0)\<lparr>isToggle := True\<rparr>)\<rparr>"

text \<open>A stored reaction role won by members 20 and 21, and a client on which, while
  the manager was down, member 21 took the reaction off and member 22 reacted;
  members 20 and 21 hold role 10.\<close>

definition storedRole :: ReactionRole where
  "storedRole = blank\<lparr>rid := ''3-a'', message := ''3'', channel := ''2'', guild := ''1'',
      emoji := ''a'', roles := [''10''], rmax := MAX_SAFE_INTEGER,
      winners := [''20'', ''21'']\<rparr>"

definition drifted :: world where
  "drifted = (constructor defaults theGuild)
     \<lparr>memberRoles := (\<lambda>member. if mid member = ''20'' \<or> mid member = ''21''
                                 then {''10''} else {}),
      reactions := (\<lambda>m. if m = ''3'' then [(''a'', [''0'', ''20'', ''22''])] else [])\<rparr>"

text \<open>The reaction with emoji b on message 3. A manager with one toggled reaction role
  with maximum 1 that nobody won yet, on which members 20 and 21 have reacted. A
  manager with two toggled reaction roles on message 3: emoji a gives role 10 and
  was won by member 20, who holds the role; emoji b gives role 12; member 20 has now
  reacted with b as well.\<close>

definition reactionB :: MessageReaction where
  "reactionB = \<lparr>r_message = theMessage, r_emoji = ''b''\<rparr>"

definition oneToggle :: world where
  "oneToggle = (constructor defaults theGuild)
     \<lparr>heap := (\<lambda>a. blank)(0 := blank\<lparr>rid := ''3-a'', message := ''3'', channel := ''2'',
                 guild := ''1'', emoji := ''a'', roles := [''10''], rmax := 1,
                 isToggle := True\<rparr>),
      nextRef := 1, reactionRoles := [(''3-a'', 0)],
      reactions := (\<lambda>m. if m = ''3'' then [(''a'', [''0'', ''20'', ''21''])] else [])\<rparr>"

definition twoToggles :: world where
  "twoToggles = (constructor defaults theGuild)
     \<lparr>heap := (\<lambda>a. blank)
        (0 := blank\<lparr>rid := ''3-a'', message := ''3'', channel := ''2'', guild := ''1'',
                 emoji := ''a'', roles := [''10''], rmax := MAX_SAFE_INTEGER,
                 isToggle := True, winners := [''20'']\<rparr>,
         1 := blank\<lparr>rid := ''3-b'', message := ''3'', channel := ''2'', guild := ''1'',
                 emoji := ''b'', roles := [''12''], rmax := MAX_SAFE_INTEGER,
                 isToggle := True\<rparr>),
      nextRef := 2, reactionRoles := [(''3-a'', 0), (''3-b'', 1)],
      memberRoles := (\<lambda>member. if mid member = ''20'' then {''10''} else {}),
      reactions := (\<lambda>m. if m = ''3'' then [(''a'', [''0'', ''20'']), (''b'', [''0'', ''20''])]
                         else [])\<rparr>"

section \<open>Facts about the helpers\<close>

declare timeoutToggledRoles.simps [simp del]

lemma heap_checkRolesPermissions:
  "heap (snd (checkRolesPermissions action a member w)) = heap w"
  by (simp add: checkRolesPermissions_def Let_def emit_def)

lemma heap_usersRemove: "heap (usersRemove r u w) = heap w"
  by (simp add: usersRemove_def)

lemma heap_checkRequirements:
  "heap (snd (checkRequirements a r member w)) = heap w"
  by (simp add: checkRequirements_def Let_def emit_def usersRemove_def split: option.splits)

lemma heap_timeoutToggledRoles:
  "heap (timeoutToggledRoles member msg s tries w) = heap w"
  by (induction member msg s tries w rule: timeoutToggledRoles.induct)
     (simp add: timeoutToggledRoles.simps)

lemma heap_takeRoles: "heap (takeRoles member a rs w) = heap w"
  by (induction rs arbitrary: w) (simp_all add: emit_def rolesRemove_def)

lemma giveRoles_winner:
  "mid member \<in> set (winners (heap w a)) \<Longrightarrow> heap (giveRoles member a rs w) = heap w"
  by (induction rs arbitrary: w) (simp_all add: emit_def rolesAdd_def Let_def)

lemma handleReactionRoleAction_length_winners:
  "mid member \<in> set (winners (heap w a)) \<Longrightarrow>
   length (winners (heap (snd (handleReactionRoleAction action member a r w)) a))
     \<le> length (winners (heap w a))"
  by (auto simp: handleReactionRoleAction_def Let_def heap_checkRolesPermissions
      heap_usersRemove heap_checkRequirements heap_timeoutToggledRoles heap_takeRoles
      giveRoles_winner spliceWinner_def setWinners_def length_remove1
      split: ActionType.splits)

text \<open>The loop over the winners ends: the index goes up at every turn and the
  list does not grow, since the member handled is a winner.\<close>

termination bootWinners
  apply (relation "measure (\<lambda>(g, a, r, users, j, w). length (winners (heap w a)) - j)")
     apply simp
    apply (simp add: setWinners_def)
   apply simp
  subgoal for g a r users j w
    using handleReactionRoleAction_length_winners
      [of "\<lparr>mid = winners (heap w a) ! j, mguild = g\<rparr>" w a TAKE r]
    by simp
  apply simp
  done

declare bootWinners.simps [simp del]

lemma map_of_collectionSet: "map_of (collectionSet k v kvs) k = Some v"
  by (induction kvs) auto

section \<open>Creating a reaction role: the maximum handed to the constructor\<close>

text \<open>
  Whenever \<^verbatim>\<open>createReactionRole\<close> succeeds, the new reaction role is what the
  constructor made of an object whose \<^verbatim>\<open>max\<close> is
  \<^verbatim>\<open>Number.MAX_SAFE_INTEGER\<close> if the maximum the function was handed is absent, 0,
  negative or above \<^verbatim>\<open>Number.MAX_SAFE_INTEGER\<close>, and the maximum it was handed
  otherwise; that \<^verbatim>\<open>max\<close> is positive. The registry has the new reaction role
  under its id. What maximum the new reaction role itself has is up to the
  constructor.
\<close>

lemma createReactionRole_hands_max:
  assumes "createReactionRole construct opts w = Inr (a, w')"
  shows "\<exists>d. heap w' a = construct d
            \<and> d_max d =
                (case c_max opts of
                   None \<Rightarrow> MAX_SAFE_INTEGER
                 | Some m \<Rightarrow>
                     if m = 0 \<or> m < 0 \<or> m > MAX_SAFE_INTEGER then MAX_SAFE_INTEGER else m)
            \<and> 0 < d_max d
            \<and> map_of (reactionRoles w') (rid (heap w' a)) = Some a"
  using assms
  by (auto simp: createReactionRole_def Let_def map_of_collectionSet MAX_SAFE_INTEGER_def
      split: option.splits if_splits)

section \<open>All reactions removed from a message without reaction roles\<close>

text \<open>
  Claim C10. When all reactions are removed from a message that no reaction role of
  the registry is on, \<^verbatim>\<open>__onRemoveAllReaction\<close> returns at once and leaves
  everything as it was: no reaction role is disabled, no role is taken off, no list
  of winners changes and no \<^verbatim>\<open>allReactionsRemove\<close> event is emitted.
\<close>

theorem onRemoveAllReaction_unregistered:
  assumes "\<forall>a \<in> set (map snd (reactionRoles w)). message (heap w a) \<noteq> msg_id msg"
  shows "onRemoveAllReaction msg w = (Done, w)"
  using assms by (simp add: onRemoveAllReaction_def filter_empty_conv)

text \<open>On message 4 nothing happens; on message 3, which has a reaction role, the
  same event changes the world.\<close>

theorem onRemoveAllReaction_unregistered_witness:
  "onRemoveAllReaction otherMessage oneRole = (Done, oneRole)
   \<and> fst (onRemoveAllReaction theMessage oneRole) = Done
   \<and> snd (onRemoveAllReaction theMessage oneRole) \<noteq> oneRole"
proof -
  have "\<forall>a \<in> set (map snd (reactionRoles oneRole)).
          message (heap oneRole a) \<noteq> msg_id otherMessage"
    by (simp add: oneRole_def otherMessage_def)
  from onRemoveAllReaction_unregistered [OF this] show ?thesis
    apply simp
    apply (simp add: onRemoveAllReaction_def oneRole_def theMessage_def constructor_def
        defaults_def theGuild_def offline_def checkRolesPermissions_def resolveRoles_def
        Let_def deleteReactionRole_def setDisabled_def emit_def rolesRemove_def)
    done
qed

section \<open>Frames of the handler's steps\<close>

lemma checkRolesPermissions_frame:
  "memberRoles (snd (checkRolesPermissions action a member w)) = memberRoles w"
  "reactions (snd (checkRolesPermissions action a member w)) = reactions w"
  "filter roleEvent (emitted (snd (checkRolesPermissions action a member w)))
     = filter roleEvent (emitted w)"
  "preRoleAddHook (snd (checkRolesPermissions action a member w)) = preRoleAddHook w"
  "preRoleRemoveHook (snd (checkRolesPermissions action a member w)) = preRoleRemoveHook w"
  by (simp_all add: checkRolesPermissions_def Let_def emit_def roleEvent_def)

lemma usersRemove_frame:
  "memberRoles (usersRemove r u w) = memberRoles w"
  "emitted (usersRemove r u w) = emitted w"
  by (simp_all add: usersRemove_def)

lemma checkRequirements_frame:
  "memberRoles (snd (checkRequirements a r member w)) = memberRoles w"
  "filter roleEvent (emitted (snd (checkRequirements a r member w)))
     = filter roleEvent (emitted w)"
  "preRoleAddHook (snd (checkRequirements a r member w)) = preRoleAddHook w"
  by (simp_all add: checkRequirements_def Let_def emit_def roleEvent_def usersRemove_def
      split: option.splits)

lemma checkRequirements_True:
  "fst (checkRequirements a r member w) = Some True \<Longrightarrow>
   snd (checkRequirements a r member w) = w"
  by (simp add: checkRequirements_def Let_def split: if_splits option.splits)

lemma timeoutToggledRoles_frame:
  "memberRoles (timeoutToggledRoles member msg s tries w) = memberRoles w"
  "emitted (timeoutToggledRoles member msg s tries w) = emitted w"
  "reactions (timeoutToggledRoles member msg s tries w) = reactions w"
  by (induction member msg s tries w rule: timeoutToggledRoles.induct,
      simp add: timeoutToggledRoles.simps)+

lemma giveRoles_held:
  "\<forall>role \<in> set rs. role \<in> memberRoles w member \<Longrightarrow> giveRoles member a rs w = w"
  by (induction rs arbitrary: w) simp_all

lemma takeRoles_not_held:
  "\<forall>role \<in> set rs. role \<notin> memberRoles w member \<Longrightarrow> takeRoles member a rs w = w"
  by (induction rs arbitrary: w) simp_all

lemmas handler_frames = checkRolesPermissions_frame checkRequirements_frame
  timeoutToggledRoles_frame heap_checkRolesPermissions heap_checkRequirements
  heap_timeoutToggledRoles heap_usersRemove

lemmas example_defs = lockedRole_def oneRole_def member20_def member21_def reactionA_def
  theMessage_def otherMessage_def constructor_def defaults_def theGuild_def offline_def
  blank_def storedRole_def drifted_def MAX_SAFE_INTEGER_def

lemmas boot_defs = resfreshOnBoot_def bootReactionRole_def readyTimeout_def
  bootWinners.simps react_def

lemmas handler_defs = handleReactionRoleAction_def effectiveAction_def
  checkRolesPermissions_def resolveRoles_def checkRequirements_def
  checkBoostRequirement_def checkDeveloperRequirement_def warnedKey_def emit_def
  usersRemove_def spliceWinner_def setWinners_def rolesAdd_def rolesRemove_def Let_def

section \<open>The handler when no role may be edited\<close>

text \<open>
  Claim C5, as stated, fails: the handler has no exit for an empty list of roles
  with permission. With such a list a \<^verbatim>\<open>TAKE\<close> still takes the member out of
  the winners: member 20 is a winner of a reaction role whose only role the bot may
  not edit, and is no winner after the handler ran. And a \<^verbatim>\<open>GIVE\<close> still
  removes the reaction when the maximum is reached.
\<close>

theorem handleReactionRoleAction_no_permission_counterexample:
  "fst (checkRolesPermissions TAKE 0 member20 lockedRole) = []
   \<and> winners (heap lockedRole 0) = [''20'']
   \<and> winners (heap (snd (handleReactionRoleAction TAKE member20 0 reactionA lockedRole)) 0) = []
   \<and> fst (checkRolesPermissions GIVE 0 member20
             (lockedRole\<lparr>heap := (heap lockedRole)(0 := (heap lockedRole 0)\<lparr>rmax := 1\<rparr>)\<rparr>)) = []
   \<and> reactions lockedRole ''3'' = [(''a'', [''0'', ''20''])]
   \<and> reactions (snd (handleReactionRoleAction GIVE member20 0 reactionA
        (lockedRole\<lparr>heap := (heap lockedRole)(0 := (heap lockedRole 0)\<lparr>rmax := 1\<rparr>)\<rparr>))) ''3''
       = [(''a'', [''0''])]"
  by (simp add: handler_defs example_defs)

text \<open>What the handler does when the permission check gives no role: the loops
  over the roles run over nothing and every other step is taken.\<close>

lemma checkRolesPermissions_settings:
  "timeouts (snd (checkRolesPermissions action a member w)) = timeouts w"
  "busy (snd (checkRolesPermissions action a member w)) = busy w"
  "boosters (snd (checkRolesPermissions action a member w)) = boosters w"
  "verifiedDevelopers (snd (checkRolesPermissions action a member w)) = verifiedDevelopers w"
  by (simp_all add: checkRolesPermissions_def Let_def emit_def)

lemma checkRequirements_Some:
  "fst (checkRequirements a (Some r) member w) = Some True \<longleftrightarrow>
     checkBoostRequirement w (heap w a) member \<and> checkDeveloperRequirement w (heap w a) member"
  by (simp add: checkRequirements_def Let_def)

lemma checkRequirements_False:
  "\<not> (checkBoostRequirement w (heap w a) member \<and> checkDeveloperRequirement w (heap w a) member)
   \<Longrightarrow> reactions (snd (checkRequirements a (Some r) member w))
         = reactions (usersRemove r (mid member) w)"
  by (auto simp: checkRequirements_def Let_def emit_def usersRemove_def)

lemma requirement_checkRolesPermissions:
  "checkBoostRequirement (snd (checkRolesPermissions action a member w)) rr m
     = checkBoostRequirement w rr m"
  "checkDeveloperRequirement (snd (checkRolesPermissions action a member w)) rr m
     = checkDeveloperRequirement w rr m"
  by (simp_all add: checkBoostRequirement_def checkDeveloperRequirement_def
      checkRolesPermissions_settings)

lemma reactions_usersRemove_checkRolesPermissions:
  "reactions (usersRemove r u (snd (checkRolesPermissions action a member w)))
     = reactions (usersRemove r u w)"
  by (simp add: usersRemove_def checkRolesPermissions_frame)

lemma timeoutToggledRoles_free:
  "mid member \<notin> busy w \<Longrightarrow>
   timeouts (timeoutToggledRoles member msg s 0 w)
     = collectionSet (mid member) \<lparr>t_member = member, t_message = msg, t_skippedRole = s\<rparr>
         (timeouts w)"
  by (simp add: timeoutToggledRoles.simps)

lemma spliceWinner_frame:
  "memberRoles (spliceWinner a u w) = memberRoles w"
  "emitted (spliceWinner a u w) = emitted w"
  "reactions (spliceWinner a u w) = reactions w"
  "heap (spliceWinner a u w)
     = (heap w)(a := (heap w a)\<lparr>winners := remove1 u (winners (heap w a))\<rparr>)"
  by (simp_all add: spliceWinner_def setWinners_def remove1_idem)

lemma handleReactionRoleAction_GIVE_no_roles:
  assumes "effectiveAction (heap w a) action = GIVE"
    and "fst (checkRolesPermissions GIVE a member w) = []"
  shows "handleReactionRoleAction action member a r w =
     (Done,
      if disabled (heap w a) then w
      else if isJustLose (heap w a) then usersRemove r (mid member) w
      else if 0 < rmax (heap w a) \<and> rmax (heap w a) \<le> int (length (winners (heap w a)))
      then usersRemove r (mid member) (snd (checkRolesPermissions GIVE a member w))
      else if \<not> (checkBoostRequirement w (heap w a) member
                  \<and> checkDeveloperRequirement w (heap w a) member)
      then snd (checkRequirements a (Some r) member (snd (checkRolesPermissions GIVE a member w)))
      else if isToggle (heap w a)
      then timeoutToggledRoles member (r_message r) (Some a) 0
             (snd (checkRolesPermissions GIVE a member w))
      else snd (checkRolesPermissions GIVE a member w))"
  using assms
  by (simp add: handleReactionRoleAction_def Let_def heap_checkRolesPermissions
      heap_checkRequirements checkRequirements_Some requirement_checkRolesPermissions
      checkRequirements_True)

lemma handleReactionRoleAction_TAKE_no_roles:
  assumes "effectiveAction (heap w a) action = TAKE"
    and "fst (checkRolesPermissions TAKE a member w) = []"
  shows "handleReactionRoleAction action member a r w =
     (Done,
      if disabled (heap w a) \<or> isJustWin (heap w a) then w
      else spliceWinner a (mid member) (snd (checkRolesPermissions TAKE a member w)))"
  using assms by (simp add: handleReactionRoleAction_def Let_def)

lemma handleReactionRoleAction_UNKNOWN:
  assumes "effectiveAction (heap w a) action = UNKNOWN"
  shows "snd (handleReactionRoleAction action member a r w) =
     (if disabled (heap w a) then w else snd (checkRolesPermissions UNKNOWN a member w))"
  using assms by (simp add: handleReactionRoleAction_def Let_def)

text \<open>
  Claim C5, amended. If the permission check gives no role for the action the
  handler acts on (the action it was handed, flipped by a reversed reaction role),
  the handler adds no role to and removes no role from any member and emits neither
  \<^verbatim>\<open>reactionRoleAdd\<close> nor \<^verbatim>\<open>reactionRoleRemove\<close>; it does not
  stop there, and its other steps are taken as with any list of roles.

  \<^item> When the action is a \<^verbatim>\<open>GIVE\<close> the handler returns normally and no
    reaction role changes, so the winners stay as they are. The reaction of the
    member is removed if the reaction role is not disabled and is only for losing,
    or has reached its maximum (a positive maximum that is at most the number of
    winners), or has a requirement the member does not meet; in every other case the
    reactions stay as they are. If the reaction role is not disabled, not only for
    losing, below its maximum, a toggled one, the member meets its requirements and
    the lock of the member is free, the timer of the member is set to the settlement
    of this message with this reaction role as the one to skip.

  \<^item> When the action is a \<^verbatim>\<open>TAKE\<close> the handler returns normally and no
    reaction is removed. If the reaction role is disabled or only for winning no
    reaction role changes; otherwise the first occurrence of the member is taken
    out of the winners of the reaction role, and nothing else of any reaction role
    changes.
\<close>

theorem handleReactionRoleAction_no_permission:
  assumes "fst (checkRolesPermissions (effectiveAction (heap w a) action) a member w) = []"
  shows "memberRoles (snd (handleReactionRoleAction action member a r w)) = memberRoles w
       \<and> filter roleEvent (emitted (snd (handleReactionRoleAction action member a r w)))
           = filter roleEvent (emitted w)
       \<and> (effectiveAction (heap w a) action = GIVE \<longrightarrow>
            fst (handleReactionRoleAction action member a r w) = Done
          \<and> heap (snd (handleReactionRoleAction action member a r w)) = heap w
          \<and> reactions (snd (handleReactionRoleAction action member a r w)) =
              (if \<not> disabled (heap w a)
                  \<and> (isJustLose (heap w a)
                     \<or> (0 < rmax (heap w a)
                        \<and> rmax (heap w a) \<le> int (length (winners (heap w a))))
                     \<or> \<not> checkBoostRequirement w (heap w a) member
                     \<or> \<not> checkDeveloperRequirement w (heap w a) member)
               then reactions (usersRemove r (mid member) w)
               else reactions w)
          \<and> (\<not> disabled (heap w a) \<and> \<not> isJustLose (heap w a)
               \<and> \<not> (0 < rmax (heap w a)
                      \<and> rmax (heap w a) \<le> int (length (winners (heap w a))))
               \<and> checkBoostRequirement w (heap w a) member
               \<and> checkDeveloperRequirement w (heap w a) member
               \<and> isToggle (heap w a) \<and> mid member \<notin> busy w \<longrightarrow>
             timeouts (snd (handleReactionRoleAction action member a r w))
               = collectionSet (mid member)
                   \<lparr>t_member = member, t_message = r_message r, t_skippedRole = Some a\<rparr>
                   (timeouts w)))
       \<and> (effectiveAction (heap w a) action = TAKE \<longrightarrow>
            fst (handleReactionRoleAction action member a r w) = Done
          \<and> reactions (snd (handleReactionRoleAction action member a r w)) = reactions w
          \<and> heap (snd (handleReactionRoleAction action member a r w)) =
              (if disabled (heap w a) \<or> isJustWin (heap w a) then heap w
               else (heap w)(a := (heap w a)
                      \<lparr>winners := remove1 (mid member) (winners (heap w a))\<rparr>)))"
proof (cases "effectiveAction (heap w a) action")
  case GIVE
  with assms have none: "fst (checkRolesPermissions GIVE a member w) = []" by simp
  note H = handleReactionRoleAction_GIVE_no_roles [OF GIVE none, of r]
  have "memberRoles (snd (handleReactionRoleAction action member a r w)) = memberRoles w"
    by (simp add: H handler_frames usersRemove_frame)
  moreover have "filter roleEvent (emitted (snd (handleReactionRoleAction action member a r w)))
      = filter roleEvent (emitted w)"
    by (simp add: H handler_frames usersRemove_frame)
  moreover have "heap (snd (handleReactionRoleAction action member a r w)) = heap w"
    by (simp add: H handler_frames)
  moreover have "reactions (snd (handleReactionRoleAction action member a r w)) =
              (if \<not> disabled (heap w a)
                  \<and> (isJustLose (heap w a)
                     \<or> (0 < rmax (heap w a)
                        \<and> rmax (heap w a) \<le> int (length (winners (heap w a))))
                     \<or> \<not> checkBoostRequirement w (heap w a) member
                     \<or> \<not> checkDeveloperRequirement w (heap w a) member)
               then reactions (usersRemove r (mid member) w)
               else reactions w)"
    by (auto simp: H handler_frames reactions_usersRemove_checkRolesPermissions
        checkRequirements_False requirement_checkRolesPermissions)
  moreover have "\<not> disabled (heap w a) \<and> \<not> isJustLose (heap w a)
               \<and> \<not> (0 < rmax (heap w a)
                      \<and> rmax (heap w a) \<le> int (length (winners (heap w a))))
               \<and> checkBoostRequirement w (heap w a) member
               \<and> checkDeveloperRequirement w (heap w a) member
               \<and> isToggle (heap w a) \<and> mid member \<notin> busy w \<longrightarrow>
             timeouts (snd (handleReactionRoleAction action member a r w))
               = collectionSet (mid member)
                   \<lparr>t_member = member, t_message = r_message r, t_skippedRole = Some a\<rparr>
                   (timeouts w)"
    by (auto simp: H timeoutToggledRoles_free checkRolesPermissions_settings)
  ultimately show ?thesis using GIVE by (simp add: H)
next
  case TAKE
  with assms have none: "fst (checkRolesPermissions TAKE a member w) = []" by simp
  note H = handleReactionRoleAction_TAKE_no_roles [OF TAKE none, of r]
  show ?thesis using TAKE
    by (simp add: H spliceWinner_frame handler_frames)
next
  case UNKNOWN
  then show ?thesis
    by (simp add: handleReactionRoleAction_UNKNOWN handler_frames)
qed

text \<open>The bot may not edit role 11, the only role of the reaction role. A
  \<^verbatim>\<open>TAKE\<close> for member 20 leaves the role and the reaction and takes the member
  out of the winners. With the maximum 1 reached a \<^verbatim>\<open>GIVE\<close> for member 20
  leaves the winners and removes the member's reaction. On the toggled reaction role
  a \<^verbatim>\<open>GIVE\<close> for member 21 sets the member's timer and removes no
  reaction.\<close>

theorem handleReactionRoleAction_no_permission_witness:
  "fst (checkRolesPermissions TAKE 0 member20 lockedRole) = []
   \<and> memberRoles (snd (handleReactionRoleAction TAKE member20 0 reactionA lockedRole)) member20
       = {''11''}
   \<and> reactions (snd (handleReactionRoleAction TAKE member20 0 reactionA lockedRole)) ''3''
       = [(''a'', [''0'', ''20''])]
   \<and> winners (heap lockedRole 0) = [''20'']
   \<and> winners (heap (snd (handleReactionRoleAction TAKE member20 0 reactionA lockedRole)) 0) = []
   \<and> fst (checkRolesPermissions GIVE 0 member20 lockedFull) = []
   \<and> winners (heap (snd (handleReactionRoleAction GIVE member20 0 reactionA lockedFull)) 0)
       = [''20'']
   \<and> reactions (snd (handleReactionRoleAction GIVE member20 0 reactionA lockedFull)) ''3''
       = [(''a'', [''0''])]
   \<and> fst (checkRolesPermissions GIVE 0 member21 lockedToggle) = []
   \<and> timeouts lockedToggle = []
   \<and> timeouts (snd (handleReactionRoleAction GIVE member21 0 reactionA lockedToggle))
       = [(''21'', \<lparr>t_member = member21, t_message = theMessage, t_skippedRole = Some 0\<rparr>)]
   \<and> reactions (snd (handleReactionRoleAction GIVE member21 0 reactionA lockedToggle)) ''3''
       = [(''a'', [''0'', ''20''])]"
proof -
  have e: "effectiveAction (heap lockedRole 0) TAKE = TAKE"
    "effectiveAction (heap lockedFull 0) GIVE = GIVE"
    "effectiveAction (heap lockedToggle 0) GIVE = GIVE"
    by (simp_all add: effectiveAction_def lockedFull_def lockedToggle_def example_defs)
  have h: "fst (checkRolesPermissions TAKE 0 member20 lockedRole) = []"
    "fst (checkRolesPermissions GIVE 0 member20 lockedFull) = []"
    "fst (checkRolesPermissions GIVE 0 member21 lockedToggle) = []"
    by (simp_all add: handler_defs lockedFull_def lockedToggle_def example_defs)
  have take: "memberRoles (snd (handleReactionRoleAction TAKE member20 0 reactionA lockedRole))
        member20 = {''11''}
      \<and> reactions (snd (handleReactionRoleAction TAKE member20 0 reactionA lockedRole)) ''3''
        = [(''a'', [''0'', ''20''])]
      \<and> winners (heap lockedRole 0) = [''20'']
      \<and> winners (heap (snd (handleReactionRoleAction TAKE member20 0 reactionA lockedRole)) 0)
        = []"
    using handleReactionRoleAction_no_permission [of lockedRole 0 TAKE member20 reactionA]
    by (simp add: e h) (simp add: example_defs)
  have full: "winners (heap (snd (handleReactionRoleAction GIVE member20 0 reactionA
          lockedFull)) 0) = [''20'']
      \<and> reactions (snd (handleReactionRoleAction GIVE member20 0 reactionA lockedFull)) ''3''
        = [(''a'', [''0''])]"
    using handleReactionRoleAction_no_permission [of lockedFull 0 GIVE member20 reactionA]
    by (simp add: e h) (simp add: lockedFull_def usersRemove_def example_defs)
  have toggle: "timeouts lockedToggle = []
      \<and> timeouts (snd (handleReactionRoleAction GIVE member21 0 reactionA lockedToggle))
        = [(''21'', \<lparr>t_member = member21, t_message = theMessage, t_skippedRole = Some 0\<rparr>)]
      \<and> reactions (snd (handleReactionRoleAction GIVE member21 0 reactionA lockedToggle)) ''3''
        = [(''a'', [''0'', ''20''])]"
    using handleReactionRoleAction_no_permission [of lockedToggle 0 GIVE member21 reactionA]
    by (simp add: e h)
       (simp add: lockedToggle_def checkBoostRequirement_def checkDeveloperRequirement_def
          example_defs)
  from h take full toggle show ?thesis by simp
qed

section \<open>Giving what is held, taking what is not\<close>

lemma giveRoles_distinct:
  "distinct (winners (heap w a)) \<Longrightarrow> distinct (winners (heap (giveRoles member a rs w) a))"
  by (induction rs arbitrary: w) (simp_all add: emit_def rolesAdd_def setWinners_def Let_def)

text \<open>
  Claim C6. When the handler acts on a \<^verbatim>\<open>GIVE\<close> for a member who already
  holds every role the bot may give, it adds no role, emits no
  \<^verbatim>\<open>reactionRoleAdd\<close> and leaves the winners as they are. When it acts on a
  \<^verbatim>\<open>TAKE\<close> for a member who holds none of the roles the bot may take, it
  removes no role and emits no \<^verbatim>\<open>reactionRoleRemove\<close>. Whatever the handler
  does, winners without a duplicate stay without one. The same holds where the
  settlement of toggled roles gives the kept reaction role to a member who already
  holds its role: no role is added, no role event is emitted and no duplicate winner
  is appended.
\<close>

theorem grant_revoke_idempotent:
  "(effectiveAction (heap w a) action = GIVE
      \<and> (\<forall>role \<in> set (fst (checkRolesPermissions GIVE a member w)). role \<in> memberRoles w member)
     \<longrightarrow> memberRoles (snd (handleReactionRoleAction action member a r w)) = memberRoles w
       \<and> filter roleEvent (emitted (snd (handleReactionRoleAction action member a r w)))
           = filter roleEvent (emitted w)
       \<and> winners (heap (snd (handleReactionRoleAction action member a r w)) a)
           = winners (heap w a))
   \<and> (effectiveAction (heap w a) action = TAKE
      \<and> (\<forall>role \<in> set (fst (checkRolesPermissions TAKE a member w)). role \<notin> memberRoles w member)
     \<longrightarrow> memberRoles (snd (handleReactionRoleAction action member a r w)) = memberRoles w
       \<and> filter roleEvent (emitted (snd (handleReactionRoleAction action member a r w)))
           = filter roleEvent (emitted w))
   \<and> (distinct (winners (heap w a))
     \<longrightarrow> distinct (winners (heap (snd (handleReactionRoleAction action member a r w)) a)))
   \<and> (msg_guild msg = Some g \<and> firstRole w g (heap w a) = Some role
        \<and> role \<in> memberRoles w member
     \<longrightarrow> memberRoles (snd (giveSkippedRole member msg a w)) = memberRoles w
       \<and> filter roleEvent (emitted (snd (giveSkippedRole member msg a w)))
           = filter roleEvent (emitted w)
       \<and> (distinct (winners (heap w a))
            \<longrightarrow> distinct (winners (heap (snd (giveSkippedRole member msg a w)) a))))"
proof (intro conjI impI)
  assume "effectiveAction (heap w a) action = GIVE
      \<and> (\<forall>role \<in> set (fst (checkRolesPermissions GIVE a member w)). role \<in> memberRoles w member)"
  then show "memberRoles (snd (handleReactionRoleAction action member a r w)) = memberRoles w"
    "filter roleEvent (emitted (snd (handleReactionRoleAction action member a r w)))
           = filter roleEvent (emitted w)"
    "winners (heap (snd (handleReactionRoleAction action member a r w)) a)
           = winners (heap w a)"
    by (auto simp: handleReactionRoleAction_def Let_def handler_frames
      usersRemove_def giveRoles_held checkRequirements_True)
next
  assume "effectiveAction (heap w a) action = TAKE
      \<and> (\<forall>role \<in> set (fst (checkRolesPermissions TAKE a member w)). role \<notin> memberRoles w member)"
  then show "memberRoles (snd (handleReactionRoleAction action member a r w)) = memberRoles w"
    "filter roleEvent (emitted (snd (handleReactionRoleAction action member a r w)))
           = filter roleEvent (emitted w)"
    by (auto simp: handleReactionRoleAction_def Let_def handler_frames
      spliceWinner_def setWinners_def takeRoles_not_held)
next
  assume "distinct (winners (heap w a))"
  then show "distinct (winners (heap (snd (handleReactionRoleAction action member a r w)) a))"
    by (auto simp: handleReactionRoleAction_def Let_def handler_frames heap_takeRoles
      spliceWinner_def setWinners_def giveRoles_distinct split: ActionType.splits)
next
  assume h: "msg_guild msg = Some g \<and> firstRole w g (heap w a) = Some role
        \<and> role \<in> memberRoles w member"
  then show "memberRoles (snd (giveSkippedRole member msg a w)) = memberRoles w"
    "filter roleEvent (emitted (snd (giveSkippedRole member msg a w)))
           = filter roleEvent (emitted w)"
    by (auto simp: giveSkippedRole_def Let_def handler_frames usersRemove_frame setWinners_def
        split: option.splits bool.splits)
  assume "distinct (winners (heap w a))"
  with h show "distinct (winners (heap (snd (giveSkippedRole member msg a w)) a))"
    by (auto simp: giveSkippedRole_def Let_def handler_frames usersRemove_frame setWinners_def
        split: option.splits bool.splits)
qed

text \<open>Member 20 holds role 10 and reacts again; member 21, who does not hold it,
  takes the reaction off; the settlement keeps the toggled reaction role with emoji a
  for member 20, who holds its role 10.\<close>

theorem grant_revoke_idempotent_witness:
  "set (fst (checkRolesPermissions GIVE 0 member20 oneRole)) = {''10''}
   \<and> memberRoles oneRole member20 = {''10''}
   \<and> memberRoles (snd (handleReactionRoleAction GIVE member20 0 reactionA oneRole)) member20
       = {''10''}
   \<and> winners (heap (snd (handleReactionRoleAction GIVE member20 0 reactionA oneRole)) 0)
       = [''20'']
   \<and> memberRoles (snd (handleReactionRoleAction TAKE member21 0 reactionA oneRole)) member21
       = {}
   \<and> firstRole twoToggles ''1'' (heap twoToggles 0) = Some ''10''
   \<and> memberRoles (snd (giveSkippedRole member20 theMessage 0 twoToggles)) member20 = {''10''}
   \<and> distinct (winners (heap (snd (giveSkippedRole member20 theMessage 0 twoToggles)) 0))"
proof -
  have e: "effectiveAction (heap oneRole 0) GIVE = GIVE"
    "effectiveAction (heap oneRole 0) TAKE = TAKE"
    by (simp_all add: effectiveAction_def example_defs)
  have h: "fst (checkRolesPermissions GIVE 0 member20 oneRole) = [''10'']"
    "fst (checkRolesPermissions TAKE 0 member21 oneRole) = [''10'']"
    by (simp_all add: handler_defs example_defs)
  have m: "memberRoles oneRole member20 = {''10''}" "memberRoles oneRole member21 = {}"
    "winners (heap oneRole 0) = [''20'']"
    by (simp_all add: example_defs)
  have t: "msg_guild theMessage = Some ''1''"
    "firstRole twoToggles ''1'' (heap twoToggles 0) = Some ''10''"
    "memberRoles twoToggles member20 = {''10''}" "winners (heap twoToggles 0) = [''20'']"
    by (simp_all add: firstRole_def example_defs twoToggles_def)
  from grant_revoke_idempotent [of oneRole 0 GIVE member20 reactionA]
       grant_revoke_idempotent [of oneRole 0 TAKE member21 reactionA]
       grant_revoke_idempotent [of twoToggles 0 GIVE member20 reactionA theMessage
         "''1''" "''10''"]
  show ?thesis
    by (simp add: e h m t)
qed

section \<open>A missing permission is told once\<close>

lemma warnedOnce_checkRolesPermissions:
  assumes "warnedOnce role user w"
  shows "warnedOnce role user (snd (checkRolesPermissions action a member w))"
proof (cases "mid member = user \<and> \<not> editable w role
    \<and> role \<in> set (resolveRoles w (heap w a) member)
    \<and> warnedKey role member \<notin> withoutPermissionsWarned w")
  case True
  then have "filter (missingPermission role user) (emitted w) = []"
    using assms by (auto simp: warnedOnce_def warnedKey_def)
  with True show ?thesis
    by (auto simp: warnedOnce_def checkRolesPermissions_def Let_def emit_def
        missingPermission_def warnedKey_def filter_empty_conv)
next
  case False
  with assms show ?thesis
    by (auto simp: warnedOnce_def checkRolesPermissions_def Let_def emit_def
        missingPermission_def warnedKey_def)
qed

lemma warnedOnce_seen:
  "warnedOnce role user (seen\<lparr>withoutPermissionsWarned := withoutPermissionsWarned w,
                               emitted := emitted w\<rparr>) = warnedOnce role user w"
  by (simp add: warnedOnce_def)

lemma warnedOnce_permissionChecks:
  "warnedOnce role user w \<Longrightarrow> warnedOnce role user (permissionChecks calls w)"
  by (induction calls w rule: permissionChecks.induct)
     (simp_all add: warnedOnce_checkRolesPermissions warnedOnce_seen)

text \<open>
  Claim C7. For every role and every member, however many times the permission
  check is called on a manager after its construction, and whatever else changes
  between the calls, at most one \<^verbatim>\<open>missingPermissions\<close> event names that role
  for that member. A call that finds a role of the reaction role not editable leaves
  the pair in the warned set, and every call returns exactly the resolved roles of
  the reaction role that are editable.
\<close>

theorem missingPermissions_once:
  "length (filter (missingPermission role user)
             (emitted (permissionChecks calls (constructor opts client)))) \<le> 1
   \<and> (role \<in> set (resolveRoles w (heap w a) member) \<and> \<not> editable w role \<longrightarrow>
        warnedKey role member
          \<in> withoutPermissionsWarned (snd (checkRolesPermissions action a member w)))
   \<and> fst (checkRolesPermissions action a member w)
       = filter (editable w) (resolveRoles w (heap w a) member)"
proof -
  have "warnedOnce role user (constructor opts client)"
    by (simp add: warnedOnce_def constructor_def)
  from warnedOnce_permissionChecks [OF this]
  have "length (filter (missingPermission role user)
             (emitted (permissionChecks calls (constructor opts client)))) \<le> 1"
    by (simp add: warnedOnce_def)
  then show ?thesis
    by (auto simp: checkRolesPermissions_def Let_def emit_def filter_empty_conv)
qed

text \<open>Member 20 reacts and takes the reaction off again on a reaction role whose
  role 11 is not editable: one event, from the first of the two calls.\<close>

theorem missingPermissions_once_witness:
  "emitted (permissionChecks [(GIVE, 0, member20, lockedRole), (TAKE, 0, member20, lockedRole)]
              (constructor defaults theGuild))
     = [MISSING_PERMISSIONS GIVE member20 [''11''] 0]
   \<and> length (filter (missingPermission ''11'' ''20'')
               (emitted (permissionChecks
                  [(GIVE, 0, member20, lockedRole), (TAKE, 0, member20, lockedRole)]
                  (constructor defaults theGuild)))) \<le> 1
   \<and> fst (checkRolesPermissions GIVE 0 member20 lockedRole) = []"
proof -
  have "emitted (permissionChecks [(GIVE, 0, member20, lockedRole), (TAKE, 0, member20, lockedRole)]
              (constructor defaults theGuild))
     = [MISSING_PERMISSIONS GIVE member20 [''11''] 0]"
    by (simp add: handler_defs example_defs)
  moreover have "fst (checkRolesPermissions GIVE 0 member20 lockedRole) = []"
    by (simp add: handler_defs example_defs)
  moreover note missingPermissions_once [of "''11''" "''20''"
      "[(GIVE, 0, member20, lockedRole), (TAKE, 0, member20, lockedRole)]" defaults theGuild]
  ultimately show ?thesis by blast
qed

section \<open>Boot: how the loops change a plain reaction role\<close>

lemma sameSettings_refl: "sameSettings w w"
  by (simp add: sameSettings_def)

lemma sameSettings_giveRoles:
  "sameSettings (giveRoles member a rs w) w0 = sameSettings w w0"
  by (induction rs arbitrary: w)
     (auto simp: sameSettings_def emit_def rolesAdd_def setWinners_def Let_def)

lemma sameSettings_takeRoles:
  "sameSettings (takeRoles member a rs w) w0 = sameSettings w w0"
  by (induction rs arbitrary: w)
     (auto simp: sameSettings_def emit_def rolesRemove_def)

lemma sameSettings_timeoutToggledRoles:
  "sameSettings (timeoutToggledRoles member msg s tries w) w0 = sameSettings w w0"
  by (induction member msg s tries w rule: timeoutToggledRoles.induct)
     (simp add: sameSettings_def timeoutToggledRoles.simps)

lemma sameSettings_checkRolesPermissions:
  "sameSettings (snd (checkRolesPermissions action a member w)) w0 = sameSettings w w0"
  by (simp add: sameSettings_def checkRolesPermissions_def Let_def emit_def)

lemma sameSettings_checkRequirements:
  "sameSettings (snd (checkRequirements a r member w)) w0 = sameSettings w w0"
  by (simp add: sameSettings_def checkRequirements_def Let_def emit_def usersRemove_def
      split: option.splits)

lemma sameSettings_usersRemove: "sameSettings (usersRemove r u w) w0 = sameSettings w w0"
  by (simp add: sameSettings_def usersRemove_def)

lemma sameSettings_spliceWinner: "sameSettings (spliceWinner a u w) w0 = sameSettings w w0"
  by (simp add: sameSettings_def spliceWinner_def setWinners_def)

lemmas sameSettings_steps = sameSettings_giveRoles sameSettings_takeRoles
  sameSettings_timeoutToggledRoles sameSettings_checkRolesPermissions
  sameSettings_checkRequirements sameSettings_usersRemove sameSettings_spliceWinner

lemma sameSettings_handleReactionRoleAction:
  "sameSettings (snd (handleReactionRoleAction action member a r w)) w0 = sameSettings w w0"
  by (simp add: handleReactionRoleAction_def Let_def sameSettings_steps
      split: ActionType.splits)

lemma memberRoles_giveRoles:
  "\<forall>m role x. preRoleAddHook w m role x \<Longrightarrow>
   memberRoles (giveRoles member a rs w)
     = (memberRoles w)(member := memberRoles w member \<union> set rs)"
  by (induction rs arbitrary: w)
     (auto simp: emit_def rolesAdd_def setWinners_def Let_def fun_eq_iff)

lemma heap_giveRoles:
  "\<forall>m role x. preRoleAddHook w m role x \<Longrightarrow>
   heap (giveRoles member a rs w)
     = (if (\<exists>role \<in> set rs. role \<notin> memberRoles w member)
            \<and> mid member \<notin> set (winners (heap w a))
        then (heap w)(a := (heap w a)\<lparr>winners := winners (heap w a) @ [mid member]\<rparr>)
        else heap w)"
proof (induction rs arbitrary: w)
  case Nil
  then show ?case by simp
next
  case (Cons role rs)
  show ?case
  proof (cases "role \<in> memberRoles w member")
    case True
    with Cons show ?thesis by simp
  next
    case False
    show ?thesis
    proof (cases "mid member \<in> set (winners (heap w a))")
      case True
      with False Cons.prems show ?thesis
        by (simp add: giveRoles_winner emit_def rolesAdd_def Let_def)
    next
      case notin: False
      with False Cons.prems show ?thesis
        by (simp add: giveRoles_winner emit_def rolesAdd_def setWinners_def Let_def)
    qed
  qed
qed

lemma memberRoles_takeRoles:
  "\<forall>m role x. preRoleRemoveHook w m role x \<Longrightarrow>
   memberRoles (takeRoles member a rs w)
     = (memberRoles w)(member := memberRoles w member - set rs)"
  by (induction rs arbitrary: w)
     (auto simp: emit_def rolesRemove_def fun_eq_iff)


lemma heap_spliceWinner:
  "heap (spliceWinner a u w)
     = (heap w)(a := (heap w a)\<lparr>winners := remove1 u (winners (heap w a))\<rparr>)"
  by (simp add: spliceWinner_def setWinners_def remove1_idem)

lemma checkRolesPermissions_all:
  "\<forall>role \<in> set (roles (heap w a)). role \<in> guildRoles w (mguild member) \<and> editable w role \<Longrightarrow>
   checkRolesPermissions action a member w = (roles (heap w a), w)"
  by (simp add: checkRolesPermissions_def resolveRoles_def Let_def filter_empty_conv)

lemma handleReactionRoleAction_GIVE_held:
  assumes "\<not> isReversed (heap w a)"
    and "\<forall>role \<in> set (fst (checkRolesPermissions GIVE a member w)). role \<in> memberRoles w member"
  shows "heap (snd (handleReactionRoleAction GIVE member a r w)) = heap w
       \<and> memberRoles (snd (handleReactionRoleAction GIVE member a r w)) = memberRoles w
       \<and> fst (handleReactionRoleAction GIVE member a r w) = Done"
  using assms
  by (auto simp: handleReactionRoleAction_def effectiveAction_def Let_def
      heap_checkRolesPermissions heap_checkRequirements heap_timeoutToggledRoles
      heap_usersRemove checkRolesPermissions_frame checkRequirements_frame
      timeoutToggledRoles_frame giveRoles_held checkRequirements_True usersRemove_def)

lemma handleReactionRoleAction_GIVE_new:
  assumes "\<not> disabled (heap w a)" "\<not> isReversed (heap w a)" "\<not> isJustLose (heap w a)"
      "\<not> isToggle (heap w a)"
    and "\<forall>role \<in> set (roles (heap w a)). role \<in> guildRoles w (mguild member) \<and> editable w role"
    and "\<forall>m role x. preRoleAddHook w m role x"
    and "\<not> (rmax (heap w a) \<le> int (length (winners (heap w a))) \<and> 0 < rmax (heap w a))"
    and "checkBoostRequirement w (heap w a) member"
      "checkDeveloperRequirement w (heap w a) member"
    and "\<exists>role \<in> set (roles (heap w a)). role \<notin> memberRoles w member"
    and "mid member \<notin> set (winners (heap w a))"
  shows "heap (snd (handleReactionRoleAction GIVE member a r w))
           = (heap w)(a := (heap w a)\<lparr>winners := winners (heap w a) @ [mid member]\<rparr>)
       \<and> memberRoles (snd (handleReactionRoleAction GIVE member a r w))
           = (memberRoles w)(member := memberRoles w member \<union> set (roles (heap w a)))
       \<and> fst (handleReactionRoleAction GIVE member a r w) = Done"
  using assms
  by (auto simp: handleReactionRoleAction_def effectiveAction_def Let_def
      checkRolesPermissions_all checkRequirements_def heap_giveRoles memberRoles_giveRoles)

lemma handleReactionRoleAction_TAKE_plain:
  assumes "\<not> disabled (heap w a)" "\<not> isReversed (heap w a)" "\<not> isJustWin (heap w a)"
    and "\<forall>role \<in> set (roles (heap w a)). role \<in> guildRoles w (mguild member) \<and> editable w role"
    and "\<forall>m role x. preRoleRemoveHook w m role x"
  shows "heap (snd (handleReactionRoleAction TAKE member a r w))
           = (heap w)(a := (heap w a)\<lparr>winners := remove1 (mid member) (winners (heap w a))\<rparr>)
       \<and> memberRoles (snd (handleReactionRoleAction TAKE member a r w))
           = (memberRoles w)(member := memberRoles w member - set (roles (heap w a)))
       \<and> fst (handleReactionRoleAction TAKE member a r w) = Done"
  using assms
  by (simp add: handleReactionRoleAction_def effectiveAction_def Let_def
      checkRolesPermissions_all heap_spliceWinner heap_takeRoles memberRoles_takeRoles)
     (simp add: spliceWinner_def setWinners_def memberRoles_takeRoles)

lemma bootUsers_bots:
  "bootUsers g a r us w = bootUsers g a r (filter (\<lambda>u. u \<notin> bots w) us) w"
proof (induction us arbitrary: w)
  case Nil
  then show ?case by simp
next
  case (Cons u us)
  have b1: "bots (usersRemove r u w) = bots w" by (simp add: usersRemove_def)
  have b2: "bots (snd (handleReactionRoleAction GIVE \<lparr>mid = u, mguild = g\<rparr> a r w)) = bots w"
    using sameSettings_handleReactionRoleAction [of GIVE "\<lparr>mid = u, mguild = g\<rparr>" a r w w]
    by (simp add: sameSettings_def)
  show ?case
    using Cons.IH [of w] Cons.IH [of "usersRemove r u w"]
      Cons.IH [of "snd (handleReactionRoleAction GIVE \<lparr>mid = u, mguild = g\<rparr> a r w)"]
    by (simp add: Let_def b1 b2)
qed

lemma two_elements:
  assumes "distinct xs" "set xs = {x, y}" "x \<noteq> y"
  shows "xs = [x, y] \<or> xs = [y, x]"
proof (cases xs)
  case Nil
  with assms show ?thesis by simp
next
  case (Cons a as)
  note outer = Cons
  show ?thesis
  proof (cases as)
    case Nil
    with outer assms show ?thesis by auto
  next
    case (Cons b bs)
    have "bs = []"
    proof (rule ccontr)
      assume "bs \<noteq> []"
      then obtain c cs where "bs = c # cs" by (cases bs) auto
      with outer Cons assms have "distinct [a, b, c]" "{a, b, c} \<subseteq> {x, y}" by auto
      then show False by auto
    qed
    with outer Cons assms show ?thesis by auto
  qed
qed


lemma fst_checkRolesPermissions_subset:
  "set (fst (checkRolesPermissions action a member w)) \<subseteq> set (roles (heap w a))"
  by (auto simp: checkRolesPermissions_def Let_def resolveRoles_def)

lemma find_map_of:
  "map_of kvs k = Some v \<Longrightarrow> find (\<lambda>(e, us). p @ e = p @ k) kvs = Some (k, v)"
  by (induction kvs) (auto split: if_splits)

lemma settings_fields:
  assumes "sameSettings w' w"
  shows "bots w' = bots w" "guildMembers w' = guildMembers w" "guildRoles w' = guildRoles w"
    "editable w' = editable w" "preRoleAddHook w' = preRoleAddHook w"
    "preRoleRemoveHook w' = preRoleRemoveHook w" "boosters w' = boosters w"
    "verifiedDevelopers w' = verifiedDevelopers w" "reactionRoles w' = reactionRoles w"
  using assms by (simp_all add: sameSettings_def)

lemma bootReactionRole_drift:
  assumes rr: "heap w a = rr"
    and flags: "\<not> disabled rr" "\<not> isReversed rr" "\<not> isJustWin rr" "\<not> isJustLose rr"
      "\<not> isToggle rr"
    and win: "winners rr = [A, B]" and ne: "A \<noteq> B" "A \<noteq> C" "B \<noteq> C"
    and cap: "\<not> (0 < rmax rr \<and> rmax rr \<le> 2)"
    and found: "guild rr \<in> guildsCache w" "channel rr \<in> guildChannels w (guild rr)"
      "messagesFetch w (channel rr) (message rr) = Fetched"
    and rid: "rid rr = message rr @ ''-'' @ emoji rr"
    and users: "map_of (reactions w (message rr)) (emoji rr) = Some us" "distinct us"
      "set us - bots w = {A, C}"
    and members: "A \<in> guildMembers w (guild rr)" "B \<in> guildMembers w (guild rr)"
      "C \<in> guildMembers w (guild rr)" "B \<notin> bots w"
    and perms: "\<forall>role \<in> set (roles rr). role \<in> guildRoles w (guild rr) \<and> editable w role"
    and hooks: "\<forall>m role x. preRoleAddHook w m role x" "\<forall>m role x. preRoleRemoveHook w m role x"
    and req: "checkBoostRequirement w rr \<lparr>mid = C, mguild = guild rr\<rparr>"
      "checkDeveloperRequirement w rr \<lparr>mid = C, mguild = guild rr\<rparr>"
    and lacks: "\<exists>role \<in> set (roles rr). role \<notin> memberRoles w \<lparr>mid = C, mguild = guild rr\<rparr>"
    and holds: "set (roles rr) \<subseteq> memberRoles w \<lparr>mid = A, mguild = guild rr\<rparr>"
  shows "fst (bootReactionRole a w) = Done
       \<and> heap (snd (bootReactionRole a w))
           = (heap w)(a := rr\<lparr>winners := [A, C]\<rparr>)
       \<and> memberRoles (snd (bootReactionRole a w))
           = (memberRoles w)
               (\<lparr>mid = C, mguild = guild rr\<rparr> :=
                  memberRoles w \<lparr>mid = C, mguild = guild rr\<rparr> \<union> set (roles rr),
                \<lparr>mid = B, mguild = guild rr\<rparr> :=
                  memberRoles w \<lparr>mid = B, mguild = guild rr\<rparr> - set (roles rr))
       \<and> reactionRoles (snd (bootReactionRole a w)) = reactionRoles w"
proof -
  define g where "g = guild rr"
  define mA where "mA = \<lparr>mid = A, mguild = g\<rparr>"
  define mB where "mB = \<lparr>mid = B, mguild = g\<rparr>"
  define mC where "mC = \<lparr>mid = C, mguild = g\<rparr>"
  define reaction where
    "reaction = \<lparr>r_message = \<lparr>msg_id = message rr, msg_channel = channel rr,
                               msg_guild = Some g\<rparr>, r_emoji = emoji rr\<rparr>"
  define give where "give m v = handleReactionRoleAction GIVE m a reaction v" for m v
  define rrC where "rrC = rr\<lparr>winners := [A, B, C]\<rparr>"
  define rolesC where "rolesC = (memberRoles w)(mC := memberRoles w mC \<union> set (roles rr))"
  have nobots: "A \<notin> bots w" "C \<notin> bots w" and inus: "A \<in> set us" "C \<in> set us"
    and Bnotin: "B \<notin> set us"
    using users(3) ne members(4) by auto
  \<comment> \<open>a member who holds the roles and is a winner: nothing changes\<close>
  have held: "fst (give m v) = Done \<and> heap (snd (give m v)) = heap v
      \<and> memberRoles (snd (give m v)) = memberRoles v"
    if "\<not> isReversed (heap v a)" "sameSettings v w" "mguild m = g"
      "set (roles (heap v a)) \<subseteq> memberRoles v m" for m v
    using handleReactionRoleAction_GIVE_held [of v a m reaction] that
      fst_checkRolesPermissions_subset [of GIVE a m v]
    by (auto simp: give_def)
  \<comment> \<open>the turn of C\<close>
  have new: "fst (give mC v) = Done \<and> heap (snd (give mC v)) = (heap w)(a := rrC)
      \<and> memberRoles (snd (give mC v)) = rolesC"
    if v: "heap v = heap w" "memberRoles v = memberRoles w" "sameSettings v w" for v
  proof -
    note s = settings_fields [OF v(3)]
    have f: "\<not> disabled (heap v a)" "\<not> isReversed (heap v a)" "\<not> isJustLose (heap v a)"
      "\<not> isToggle (heap v a)"
      using flags rr v(1) by simp_all
    have p: "\<forall>role \<in> set (roles (heap v a)).
        role \<in> guildRoles v (mguild mC) \<and> editable v role"
      using perms rr v(1) s by (simp add: mC_def g_def)
    have h: "\<forall>m role x. preRoleAddHook v m role x"
      using hooks s by simp
    have c: "\<not> (rmax (heap v a) \<le> int (length (winners (heap v a))) \<and> 0 < rmax (heap v a))"
      using cap win rr v(1) by auto
    have q: "checkBoostRequirement v (heap v a) mC" "checkDeveloperRequirement v (heap v a) mC"
      using req rr v(1) s
      by (auto simp: checkBoostRequirement_def checkDeveloperRequirement_def mC_def g_def
          split: if_splits)
    have l: "\<exists>role \<in> set (roles (heap v a)). role \<notin> memberRoles v mC"
      using lacks rr v(1,2) by (simp add: mC_def g_def)
    have n: "mid mC \<notin> set (winners (heap v a))"
      using win ne rr v(1) by (simp add: mC_def)
    from handleReactionRoleAction_GIVE_new [OF f p h c q l n, of reaction]
    show ?thesis
      using rr v(1,2) win by (simp add: give_def rrC_def rolesC_def mC_def)
  qed
  have ss: "sameSettings (snd (give m v)) w" if "sameSettings v w" for m v
    using that by (simp add: give_def sameSettings_handleReactionRoleAction)
  \<comment> \<open>the loop over the users\<close>
  have "\<exists>wU. bootUsers g a reaction us w = (Done, wU) \<and> heap wU = (heap w)(a := rrC)
      \<and> memberRoles wU = rolesC \<and> sameSettings wU w"
  proof -
    have "filter (\<lambda>u. u \<notin> bots w) us = [A, C] \<or> filter (\<lambda>u. u \<notin> bots w) us = [C, A]"
      using two_elements [of "filter (\<lambda>u. u \<notin> bots w) us" A C] users(2,3) ne by auto
    then show ?thesis
    proof
      assume l: "filter (\<lambda>u. u \<notin> bots w) us = [A, C]"
      have hA: "fst (give mA w) = Done \<and> heap (snd (give mA w)) = heap w
          \<and> memberRoles (snd (give mA w)) = memberRoles w"
        using held [of w mA] rr flags holds by (simp add: sameSettings_refl mA_def g_def)
      have sA: "sameSettings (snd (give mA w)) w" by (rule ss) (rule sameSettings_refl)
      have hC: "fst (give mC (snd (give mA w))) = Done
          \<and> heap (snd (give mC (snd (give mA w)))) = (heap w)(a := rrC)
          \<and> memberRoles (snd (give mC (snd (give mA w)))) = rolesC"
        using new [of "snd (give mA w)"] hA sA by simp
      have "bootUsers g a reaction [A, C] w = (Done, snd (give mC (snd (give mA w))))"
        using nobots members hA hC settings_fields [OF sA]
        by (simp add: Let_def give_def [symmetric] mA_def [symmetric] mC_def [symmetric]
            g_def [symmetric] prod_eq_iff)
      with l hC ss [OF sA, of mC] show ?thesis
        by (subst bootUsers_bots) simp
    next
      assume l: "filter (\<lambda>u. u \<notin> bots w) us = [C, A]"
      have hC: "fst (give mC w) = Done \<and> heap (snd (give mC w)) = (heap w)(a := rrC)
          \<and> memberRoles (snd (give mC w)) = rolesC"
        using new [of w] by (simp add: sameSettings_refl)
      have sC: "sameSettings (snd (give mC w)) w" by (rule ss) (rule sameSettings_refl)
      have hA: "fst (give mA (snd (give mC w))) = Done
          \<and> heap (snd (give mA (snd (give mC w)))) = heap (snd (give mC w))
          \<and> memberRoles (snd (give mA (snd (give mC w)))) = memberRoles (snd (give mC w))"
        using held [of "snd (give mC w)" mA] hC sC rr flags holds ne
        by (auto simp: mA_def mC_def g_def rrC_def rolesC_def)
      have "bootUsers g a reaction [C, A] w = (Done, snd (give mA (snd (give mC w))))"
        using nobots members hA hC settings_fields [OF sC]
        by (simp add: Let_def give_def [symmetric] mA_def [symmetric] mC_def [symmetric]
            g_def [symmetric] prod_eq_iff)
      with l hC hA ss [OF sC, of mA] show ?thesis
        by (subst bootUsers_bots) simp
    qed
  qed
  then obtain wU where wU: "bootUsers g a reaction us w = (Done, wU)"
    "heap wU = (heap w)(a := rrC)" "memberRoles wU = rolesC" "sameSettings wU w"
    by blast
  \<comment> \<open>the loop over the winners\<close>
  define wB where "wB = snd (handleReactionRoleAction TAKE mB a reaction wU)"
  have sB: "reactionRoles wB = reactionRoles w"
    using sameSettings_handleReactionRoleAction [of TAKE mB a reaction wU w] wU(4)
    by (simp add: wB_def sameSettings_def)
  have tB: "heap wB = (heap w)(a := rr\<lparr>winners := [A, C]\<rparr>)
      \<and> memberRoles wB = rolesC(mB := rolesC mB - set (roles rr))
      \<and> fst (handleReactionRoleAction TAKE mB a reaction wU) = Done"
    using handleReactionRoleAction_TAKE_plain [of wU a mB reaction] wU(2,3)
      settings_fields [OF wU(4)] flags perms hooks ne
    by (simp add: wB_def rrC_def mB_def g_def)
  have w2: "bootWinners g a reaction us (Suc (Suc 0)) wB = (Done, wB)"
    using tB by (subst bootWinners.simps) simp
  have w1: "bootWinners g a reaction us (Suc 0) wU = (Done, wB)"
    using wU(2) settings_fields [OF wU(4)] members Bnotin tB w2
    by (subst bootWinners.simps)
       (simp add: rrC_def mB_def [symmetric] g_def [symmetric] wB_def [symmetric])
  have w0: "bootWinners g a reaction us 0 wU = (Done, wB)"
    using wU(2) settings_fields [OF wU(4)] members nobots inus w1
    by (subst bootWinners.simps) (simp add: rrC_def g_def [symmetric])
  have fnd: "find (\<lambda>(e, us). rid rr = message rr @ ''-'' @ e) (reactions w (message rr))
      = Some (emoji rr, us)"
    using find_map_of [OF users(1), of "message rr @ ''-''"] by (simp add: rid eq_commute)
  have "bootReactionRole a w = (Done, readyTimeout wB)"
    using rr found users(1) fnd wU(1) w0
    by (simp add: bootReactionRole_def Let_def g_def [symmetric] reaction_def [symmetric])
  with tB sB show ?thesis
    by (auto simp: readyTimeout_def rolesC_def mB_def mC_def g_def fun_eq_iff)
qed

section \<open>Boot: drift between the stored winners and the users who react\<close>

text \<open>
  Claim C4, as stated, fails. For a reaction role that is only for winning the
  handler stops a \<^verbatim>\<open>TAKE\<close>, so the stored winner who no longer reacts stays:
  with the stored winners 20 and 21 and the reactions of 20 and 22, the winners after
  boot are 20, 21 and 22. With the maximum 2 the two stored winners fill the
  reaction role and member 22 is turned away: the winners are 20 alone. And a member
  22 who already holds the role is given nothing and is not appended.
\<close>

theorem boot_drift_counterexample:
  "winners (heap (snd (resfreshOnBoot [storedRole\<lparr>isJustWin := True\<rparr>] drifted)) 0)
     = [''20'', ''21'', ''22'']
   \<and> winners (heap (snd (resfreshOnBoot [storedRole\<lparr>rmax := 2\<rparr>] drifted)) 0) = [''20'']
   \<and> winners (heap (snd (resfreshOnBoot [storedRole]
        (drifted\<lparr>memberRoles := (\<lambda>member. {''10''})\<rparr>))) 0) = [''20'']"
  by (simp add: boot_defs handler_defs example_defs)

text \<open>
  Claim C4, amended. Boot of a manager that keeps a storage and whose registry is
  empty, with a storage that holds one reaction role and no other. The stored
  reaction role is enabled, is on a message (its message id is not empty) and has the
  id \<^verbatim>\<open>`${message}-${emoji}`\<close>; it is of the normal kind (not a toggle, not
  reversed, not only for winning or only for losing); its winners are A and B, and
  its maximum is not 1 or 2. The guild, the channel and the message are found, and
  the message has the reaction of the reaction role; the users of that reaction, each
  once and bots aside, are A and C. A, B and C are three different members of the
  guild and B is no bot. The roles of the reaction role exist in the guild and are
  editable; the hooks return true; C meets the requirements and lacks at least one of
  the roles; A holds them all. Then the boot ends normally, the registry has the
  reaction role under its id with the winners A and C, C holds every role of the
  reaction role, B holds none of them and A holds what it held.

  With a second stored reaction role the turn of the other one may give or take the
  same roles, so the statement is about a storage with this reaction role alone; what
  the turn of one reaction role does in any registry is the lemma
  \<open>bootReactionRole_drift\<close> above.
\<close>

theorem boot_drift:
  assumes fresh: "storage w" "reactionRoles w = []"
    and stored: "message rr \<noteq> []" "\<not> disabled rr"
      "rid rr = message rr @ ''-'' @ emoji rr" "winners rr = [A, B]"
    and normal: "\<not> isReversed rr" "\<not> isJustWin rr" "\<not> isJustLose rr" "\<not> isToggle rr"
    and ne: "A \<noteq> B" "A \<noteq> C" "B \<noteq> C"
    and cap: "\<not> (0 < rmax rr \<and> rmax rr \<le> 2)"
    and found: "guild rr \<in> guildsCache w" "channel rr \<in> guildChannels w (guild rr)"
      "messagesFetch w (channel rr) (message rr) = Fetched"
    and users: "map_of (reactions w (message rr)) (emoji rr) = Some us" "distinct us"
      "set us - bots w = {A, C}"
    and members: "A \<in> guildMembers w (guild rr)" "B \<in> guildMembers w (guild rr)"
      "C \<in> guildMembers w (guild rr)" "B \<notin> bots w"
    and perms: "\<forall>role \<in> set (roles rr). role \<in> guildRoles w (guild rr) \<and> editable w role"
    and hooks: "\<forall>m role x. preRoleAddHook w m role x" "\<forall>m role x. preRoleRemoveHook w m role x"
    and req: "checkBoostRequirement w rr \<lparr>mid = C, mguild = guild rr\<rparr>"
      "checkDeveloperRequirement w rr \<lparr>mid = C, mguild = guild rr\<rparr>"
    and lacks: "\<exists>role \<in> set (roles rr). role \<notin> memberRoles w \<lparr>mid = C, mguild = guild rr\<rparr>"
    and holds: "set (roles rr) \<subseteq> memberRoles w \<lparr>mid = A, mguild = guild rr\<rparr>"
  shows "fst (resfreshOnBoot [rr] w) = Done
       \<and> map_of (reactionRoles (snd (resfreshOnBoot [rr] w))) (rid rr) = Some (nextRef w)
       \<and> winners (heap (snd (resfreshOnBoot [rr] w)) (nextRef w)) = [A, C]
       \<and> set (roles rr) \<subseteq> memberRoles (snd (resfreshOnBoot [rr] w)) \<lparr>mid = C, mguild = guild rr\<rparr>
       \<and> set (roles rr) \<inter> memberRoles (snd (resfreshOnBoot [rr] w)) \<lparr>mid = B, mguild = guild rr\<rparr> = {}
       \<and> memberRoles (snd (resfreshOnBoot [rr] w)) \<lparr>mid = A, mguild = guild rr\<rparr>
           = memberRoles w \<lparr>mid = A, mguild = guild rr\<rparr>"
proof -
  define w1 where "w1 = w\<lparr>heap := (heap w)(nextRef w := rr), nextRef := nextRef w + 1,
      reactionRoles := [(rid rr, nextRef w)]\<rparr>"
  have boot: "resfreshOnBoot [rr] w = bootReactionRoles [nextRef w] w1"
    using fresh stored by (simp add: resfreshOnBoot_def w1_def)
  have h: "heap w1 (nextRef w) = rr" by (simp add: w1_def)
  have d: "fst (bootReactionRole (nextRef w) w1) = Done
       \<and> heap (snd (bootReactionRole (nextRef w) w1))
           = (heap w1)(nextRef w := rr\<lparr>winners := [A, C]\<rparr>)
       \<and> memberRoles (snd (bootReactionRole (nextRef w) w1))
           = (memberRoles w1)
               (\<lparr>mid = C, mguild = guild rr\<rparr> :=
                  memberRoles w1 \<lparr>mid = C, mguild = guild rr\<rparr> \<union> set (roles rr),
                \<lparr>mid = B, mguild = guild rr\<rparr> :=
                  memberRoles w1 \<lparr>mid = B, mguild = guild rr\<rparr> - set (roles rr))
       \<and> reactionRoles (snd (bootReactionRole (nextRef w) w1)) = reactionRoles w1"
    using stored normal ne cap found users members perms hooks req lacks holds
    by (intro bootReactionRole_drift [OF h])
       (simp_all add: w1_def checkBoostRequirement_def checkDeveloperRequirement_def
          split: if_splits)
  show ?thesis
    using d ne holds by (auto simp: boot Let_def w1_def)
qed

text \<open>The stored reaction role of members 20 and 21 on the client where member 21
  took the reaction off and member 22 reacted.\<close>

theorem boot_drift_witness:
  "winners (heap (snd (resfreshOnBoot [storedRole] drifted)) 0) = [''20'', ''22'']
   \<and> ''10'' \<in> memberRoles (snd (resfreshOnBoot [storedRole] drifted))
                 \<lparr>mid = ''22'', mguild = ''1''\<rparr>
   \<and> ''10'' \<notin> memberRoles (snd (resfreshOnBoot [storedRole] drifted))
                 \<lparr>mid = ''21'', mguild = ''1''\<rparr>"
  using boot_drift [of drifted storedRole "''20''" "''21''" "''22''" "[''0'', ''20'', ''22'']"]
  by (simp add: example_defs storedRole_def drifted_def MAX_SAFE_INTEGER_def
      checkBoostRequirement_def checkDeveloperRequirement_def)

section \<open>The ready event\<close>

lemma readyOnce_readyTimeout: "readyOnce w \<Longrightarrow> readyOnce (readyTimeout w)"
  by (simp add: readyOnce_def readyTimeout_def)

lemma readyOnce_elapse: "readyOnce w \<Longrightarrow> readyOnce (elapse d w)"
  by (auto simp: readyOnce_def elapse_def readyCallback_def emit_def split: option.splits if_splits)

lemma readyOnce_bootSteps: "readyOnce w \<Longrightarrow> readyOnce (bootSteps steps w)"
  by (induction steps w rule: bootSteps.induct)
     (simp_all add: readyOnce_readyTimeout readyOnce_elapse)

text \<open>A turn of the boot loop that runs to its end ends with the call of
  \<^verbatim>\<open>__readyTimeout\<close>; the loops before it leave the clock and the ready flag
  alone. A reaction role whose guild, channel or message is not found is passed
  over.\<close>

lemma fst_handleReactionRoleAction:
  "fst (handleReactionRoleAction action member a r w) = Done
   \<or> fst (handleReactionRoleAction action member a r w) = ThrownError"
  by (simp add: handleReactionRoleAction_def Let_def split: ActionType.splits)

lemma bootUsers_result:
  "(fst (bootUsers g a r us w) = Done \<or> fst (bootUsers g a r us w) = ThrownError)
   \<and> sameSettings (snd (bootUsers g a r us w)) w0 = sameSettings w w0"
proof (induction us arbitrary: w)
  case Nil
  then show ?case by simp
next
  case (Cons u us)
  show ?case
    using Cons [of w] Cons [of "usersRemove r u w"]
      Cons [of "snd (handleReactionRoleAction GIVE \<lparr>mid = u, mguild = g\<rparr> a r w)"]
      fst_handleReactionRoleAction [of GIVE "\<lparr>mid = u, mguild = g\<rparr>" a r w]
    by (auto simp: Let_def sameSettings_usersRemove sameSettings_handleReactionRoleAction)
qed

lemma sameSettings_setWinners: "sameSettings (setWinners a ws w) w0 = sameSettings w w0"
  by (simp add: sameSettings_def setWinners_def)

lemma bootWinners_result:
  "(fst (bootWinners g a r us j w) = Done \<or> fst (bootWinners g a r us j w) = ThrownError)
   \<and> sameSettings (snd (bootWinners g a r us j w)) w0 = sameSettings w w0"
proof (induction g a r us j w rule: bootWinners.induct)
  case (1 g a r us j w)
  show ?case
    using 1 fst_handleReactionRoleAction
      [of TAKE "\<lparr>mid = winners (heap w a) ! j, mguild = g\<rparr>" a r w]
    by (subst (1 2 3) bootWinners.simps)
       (auto simp: sameSettings_setWinners sameSettings_handleReactionRoleAction)
qed

lemma sameSettings_react: "sameSettings (react m e w) w0 = sameSettings w w0"
  by (simp add: sameSettings_def react_def)

lemma bootReactionRole_completes:
  assumes "guild (heap w a) \<in> guildsCache w"
    "channel (heap w a) \<in> guildChannels w (guild (heap w a))"
    "messagesFetch w (channel (heap w a)) (message (heap w a)) = Fetched"
    "fst (bootReactionRole a w) = Done"
  shows "\<exists>w'. snd (bootReactionRole a w) = readyTimeout w' \<and> sameSettings w' w"
proof -
  define w1 where "w1 = (if map_of (reactions w (message (heap w a))) (emoji (heap w a)) = None
      then react (message (heap w a)) (emoji (heap w a)) w else w)"
  define tried where "tried =
    (case find (\<lambda>(e, us). rid (heap w a) = message (heap w a) @ ''-'' @ e)
            (reactions w1 (message (heap w a))) of
       None \<Rightarrow> (TypeError, w1)
     | Some (e, users) \<Rightarrow>
         let reaction = \<lparr>r_message = \<lparr>msg_id = message (heap w a),
                 msg_channel = channel (heap w a), msg_guild = Some (guild (heap w a))\<rparr>,
               r_emoji = e\<rparr>;
             given = bootUsers (guild (heap w a)) a reaction users w1
         in if fst given = Done
            then bootWinners (guild (heap w a)) a reaction users 0 (snd given)
            else given)"
  have s1: "sameSettings w1 w"
    by (simp add: w1_def sameSettings_react sameSettings_refl)
  have t: "(fst tried = Done \<or> fst tried = ThrownError \<or> fst tried = TypeError)
      \<and> sameSettings (snd tried) w"
  proof (cases "find (\<lambda>(e, us). rid (heap w a) = message (heap w a) @ ''-'' @ e)
            (reactions w1 (message (heap w a)))")
    case None
    with s1 show ?thesis by (simp add: tried_def)
  next
    case (Some p)
    obtain e users where p: "p = (e, users)" by (cases p)
    define reaction where "reaction = \<lparr>r_message = \<lparr>msg_id = message (heap w a),
                 msg_channel = channel (heap w a), msg_guild = Some (guild (heap w a))\<rparr>,
               r_emoji = e\<rparr>"
    note u = bootUsers_result [of "guild (heap w a)" a reaction users w1 w]
    note v = bootWinners_result [of "guild (heap w a)" a reaction users 0
        "snd (bootUsers (guild (heap w a)) a reaction users w1)" w]
    from Some p s1 u v show ?thesis
      by (auto simp: tried_def Let_def reaction_def [symmetric])
  qed
  have b: "bootReactionRole a w =
      (if fst tried = Done then (Done, readyTimeout (snd tried))
       else if fst tried = ApiError 10008
       then (Done, snd (handleDeleted a (AGuild (guild (heap w a))) (snd tried)))
       else tried)"
    unfolding bootReactionRole_def tried_def w1_def Let_def
    using assms(1-3) by simp
  from assms(4) t have "fst tried = Done"
    by (auto simp: b split: if_splits)
  with t b show ?thesis by auto
qed

lemma bootReactionRole_passed_over:
  assumes "guild (heap w a) \<notin> guildsCache w
    \<or> channel (heap w a) \<notin> guildChannels w (guild (heap w a))
    \<or> messagesFetch w (channel (heap w a)) (message (heap w a)) \<noteq> Fetched"
  shows "fst (bootReactionRole a w) = Done
    \<and> readyTimer (snd (bootReactionRole a w)) = readyTimer w
    \<and> isReady (snd (bootReactionRole a w)) = isReady w
    \<and> emitted (snd (bootReactionRole a w)) = emitted w"
  using assms
  by (auto simp: bootReactionRole_def Let_def handleDeleted_def deleteReactionRole_def
      setDisabled_def split: option.splits fetched.splits list.splits)


text \<open>
  Claim C8, as stated, fails. The timer is a quiet period after a completion, not
  after the last one: when a reaction role completes 6 seconds after the one before
  it, \<^verbatim>\<open>ready\<close> has gone out at second 5, before the last reaction role
  finished. And a boot in which no reaction role completes (here: nothing is stored)
  never starts the timer.
\<close>

theorem ready_counterexample:
  "readyAt (bootSteps [Completes, Elapses 6000, Completes, Elapses 10000]
              (constructor defaults theGuild)) = Some 5000
   \<and> readyTimer (snd (resfreshOnBoot [] (constructor defaults theGuild))) = None
   \<and> emitted (elapse 1000000 (snd (resfreshOnBoot [] (constructor defaults theGuild)))) = []"
  by (simp add: resfreshOnBoot_def readyTimeout_def elapse_def readyCallback_def emit_def
      example_defs)

text \<open>
  Claim C8, amended. However reaction roles complete and time passes after the
  construction of the manager, \<^verbatim>\<open>ready\<close> is emitted at most once. On a
  manager that is not ready, a completion cancels the pending timer and starts one
  that runs 5000 milliseconds later, and emits nothing itself; if less than 5000
  milliseconds pass after it nothing is emitted, and if 5000 or more pass without
  another completion \<^verbatim>\<open>ready\<close> is emitted, the manager is ready and
  \<^verbatim>\<open>readyAt\<close> is 5000 milliseconds after the completion. On a manager that is
  ready, a completion leaves no timer and no \<^verbatim>\<open>ready\<close> follows. In the boot
  loop a reaction role whose guild, channel and message are found and whose turn
  ends without an error is such a completion; one for which any of the three is not
  found leaves the timer as it is.
\<close>

theorem ready_at_most_once:
  "length (filter (\<lambda>e. e = READY)
             (emitted (bootSteps steps (constructor opts client)))) \<le> 1
   \<and> (\<not> isReady w \<longrightarrow>
        readyTimer (readyTimeout w) = Some (now w + 5000)
        \<and> emitted (readyTimeout w) = emitted w
        \<and> (d < 5000 \<longrightarrow> emitted (elapse d (readyTimeout w)) = emitted w
                          \<and> \<not> isReady (elapse d (readyTimeout w)))
        \<and> (5000 \<le> d \<longrightarrow> emitted (elapse d (readyTimeout w)) = emitted w @ [READY]
                          \<and> isReady (elapse d (readyTimeout w))
                          \<and> readyAt (elapse d (readyTimeout w)) = Some (now w + 5000)))
   \<and> (isReady w \<longrightarrow> readyTimer (readyTimeout w) = None
                    \<and> emitted (elapse d (readyTimeout w)) = emitted w)
   \<and> (guild (heap w a) \<in> guildsCache w
        \<and> channel (heap w a) \<in> guildChannels w (guild (heap w a))
        \<and> messagesFetch w (channel (heap w a)) (message (heap w a)) = Fetched
        \<and> fst (bootReactionRole a w) = Done \<and> \<not> isReady w
      \<longrightarrow> readyTimer (snd (bootReactionRole a w)) = Some (now w + 5000)
        \<and> \<not> isReady (snd (bootReactionRole a w)))
   \<and> (guild (heap w a) \<notin> guildsCache w
        \<or> channel (heap w a) \<notin> guildChannels w (guild (heap w a))
        \<or> messagesFetch w (channel (heap w a)) (message (heap w a)) \<noteq> Fetched
      \<longrightarrow> readyTimer (snd (bootReactionRole a w)) = readyTimer w
        \<and> emitted (snd (bootReactionRole a w)) = emitted w)"
proof -
  have "readyOnce (constructor opts client)"
    by (simp add: readyOnce_def constructor_def)
  from readyOnce_bootSteps [OF this, of steps]
  have 1: "length (filter (\<lambda>e. e = READY)
             (emitted (bootSteps steps (constructor opts client)))) \<le> 1"
    by (simp add: readyOnce_def split: if_splits)
  have 2: "readyTimer (snd (bootReactionRole a w)) = Some (now w + 5000)
        \<and> \<not> isReady (snd (bootReactionRole a w))"
    if "guild (heap w a) \<in> guildsCache w
        \<and> channel (heap w a) \<in> guildChannels w (guild (heap w a))
        \<and> messagesFetch w (channel (heap w a)) (message (heap w a)) = Fetched
        \<and> fst (bootReactionRole a w) = Done \<and> \<not> isReady w"
  proof -
    from that bootReactionRole_completes [of w a]
    obtain w' where "snd (bootReactionRole a w) = readyTimeout w'" "sameSettings w' w"
      by blast
    with that show ?thesis by (simp add: readyTimeout_def sameSettings_def)
  qed
  from 1 2 bootReactionRole_passed_over [of w a] show ?thesis
    by (simp add: readyTimeout_def elapse_def readyCallback_def emit_def)
qed

theorem ready_at_most_once_witness:
  "emitted (bootSteps [Completes, Elapses 3000, Completes, Elapses 4999, Elapses 1, Completes,
                       Elapses 9000]
              (constructor defaults theGuild)) = [READY]
   \<and> readyAt (bootSteps [Completes, Elapses 3000, Completes, Elapses 4999, Elapses 1,
                          Completes, Elapses 9000]
              (constructor defaults theGuild)) = Some 8000
   \<and> length (filter (\<lambda>e. e = READY)
        (emitted (bootSteps [Completes, Elapses 3000, Completes, Elapses 4999, Elapses 1,
                             Completes, Elapses 9000]
              (constructor defaults theGuild)))) \<le> 1
   \<and> \<not> isReady oneRole
   \<and> emitted (elapse 5000 (readyTimeout oneRole)) = [READY]
   \<and> isReady (elapse 5000 (readyTimeout oneRole))
   \<and> emitted (elapse 4999 (readyTimeout oneRole)) = []
   \<and> fst (bootReactionRole 0 oneRole) = Done
   \<and> readyTimer (snd (bootReactionRole 0 oneRole)) = Some 5000"
proof -
  have "emitted (bootSteps [Completes, Elapses 3000, Completes, Elapses 4999, Elapses 1, Completes,
                       Elapses 9000]
              (constructor defaults theGuild)) = [READY]
   \<and> readyAt (bootSteps [Completes, Elapses 3000, Completes, Elapses 4999, Elapses 1,
                          Completes, Elapses 9000]
              (constructor defaults theGuild)) = Some 8000"
    by (simp add: readyTimeout_def elapse_def readyCallback_def emit_def example_defs)
  moreover have "\<not> isReady oneRole" "emitted oneRole = []" "now oneRole = 0"
    "guild (heap oneRole 0) \<in> guildsCache oneRole"
    "channel (heap oneRole 0) \<in> guildChannels oneRole (guild (heap oneRole 0))"
    "messagesFetch oneRole (channel (heap oneRole 0)) (message (heap oneRole 0)) = Fetched"
    by (simp_all add: example_defs)
  moreover have "fst (bootReactionRole 0 oneRole) = Done"
    by (simp add: boot_defs handler_defs example_defs)
  moreover note
    ready_at_most_once [of "[Completes, Elapses 3000, Completes, Elapses 4999,
      Elapses 1, Completes, Elapses 9000]" defaults theGuild oneRole 5000 0]
    ready_at_most_once [of "[]" defaults theGuild oneRole 4999 0]
  ultimately show ?thesis by simp
qed

section \<open>The toggle settlement and the maximum\<close>

lemmas toggle_defs = onReactionAdd_def onReaction_def toggledRolesTimeout_def
  toggledRolesOf_def giveSkippedRole_def findReaction_def firstRole_def reactionUsers_def
  timeoutToggledRoles.simps collectionDelete_def

lemmas example_defs2 = example_defs reactionB_def oneToggle_def twoToggles_def

lemma giveRoles_winners:
  "heap (giveRoles member a rs w) = heap w
   \<or> heap (giveRoles member a rs w)
       = (heap w)(a := (heap w a)\<lparr>winners := winners (heap w a) @ [mid member]\<rparr>)"
proof (induction rs arbitrary: w)
  case Nil
  then show ?case by simp
next
  case (Cons role rs)
  show ?case
  proof (cases "mid member \<in> set (winners (heap w a))")
    case True
    then show ?thesis by (intro disjI1 giveRoles_winner)
  next
    case False
    show ?thesis
    proof (cases "preRoleAddHook w member role (heap w a) \<and> role \<notin> memberRoles w member")
      case True
      with False show ?thesis
        by (simp add: Let_def emit_def rolesAdd_def setWinners_def giveRoles_winner)
    next
      case False
      with Cons [of w] show ?thesis by auto
    qed
  qed
qed

text \<open>
  The handler itself keeps the maximum: a reaction role with a positive maximum and
  no more winners than that has no more after the handler ran; and a \<^verbatim>\<open>GIVE\<close>
  on a reaction role whose maximum is reached changes no reaction role, gives no
  role, emits no role event and removes the member's reaction.
\<close>

theorem handler_keeps_maximum:
  "(0 < rmax (heap w a) \<and> int (length (winners (heap w a))) \<le> rmax (heap w a)
     \<longrightarrow> int (length (winners (heap (snd (handleReactionRoleAction action member a r w)) a)))
           \<le> rmax (heap (snd (handleReactionRoleAction action member a r w)) a))
   \<and> (\<not> disabled (heap w a) \<and> effectiveAction (heap w a) action = GIVE
        \<and> 0 < rmax (heap w a) \<and> rmax (heap w a) \<le> int (length (winners (heap w a)))
     \<longrightarrow> heap (snd (handleReactionRoleAction action member a r w)) = heap w
       \<and> memberRoles (snd (handleReactionRoleAction action member a r w)) = memberRoles w
       \<and> filter roleEvent (emitted (snd (handleReactionRoleAction action member a r w)))
           = filter roleEvent (emitted w)
       \<and> reactions (snd (handleReactionRoleAction action member a r w))
           = reactions (usersRemove r (mid member) w))"
proof (intro conjI impI)
  assume b: "0 < rmax (heap w a) \<and> int (length (winners (heap w a))) \<le> rmax (heap w a)"
  have g: "int (length (winners (heap (giveRoles member a rs v) a))) \<le> rmax (heap (giveRoles member a rs v) a)"
    if "heap v = heap w" "\<not> (rmax (heap w a) \<le> int (length (winners (heap w a))))" for rs v
    using giveRoles_winners [of member a rs v] that b by auto
  from b show "int (length (winners (heap (snd (handleReactionRoleAction action member a r w)) a)))
           \<le> rmax (heap (snd (handleReactionRoleAction action member a r w)) a)"
    by (auto simp: handleReactionRoleAction_def Let_def handler_frames heap_takeRoles
        spliceWinner_def setWinners_def length_remove1 g split: ActionType.splits)
next
  assume c: "\<not> disabled (heap w a) \<and> effectiveAction (heap w a) action = GIVE
        \<and> 0 < rmax (heap w a) \<and> rmax (heap w a) \<le> int (length (winners (heap w a)))"
  then show "heap (snd (handleReactionRoleAction action member a r w)) = heap w"
    "memberRoles (snd (handleReactionRoleAction action member a r w)) = memberRoles w"
    "filter roleEvent (emitted (snd (handleReactionRoleAction action member a r w)))
           = filter roleEvent (emitted w)"
    "reactions (snd (handleReactionRoleAction action member a r w))
           = reactions (usersRemove r (mid member) w)"
    by (auto simp: handleReactionRoleAction_def Let_def handler_frames usersRemove_frame
        usersRemove_def)
qed


text \<open>
  Claim C1 at an input where the code breaks it. A toggled reaction role has the
  maximum 1 and no winner. Members 20 and 21 react one after the other; each passes
  the test against the maximum, which reads the winners before either timer has run,
  and each gets a timer. The timers run, and neither callback tests the maximum:
  the reaction role ends with two winners.
\<close>

theorem toggle_maximum_exceeded:
  "rmax (heap oneToggle 0) = 1
   \<and> winners (heap oneToggle 0) = []
   \<and> winners (heap (snd (toggledRolesTimeout ''21''
                 (snd (toggledRolesTimeout ''20''
                   (snd (onReactionAdd reactionA ''21''
                     (snd (onReactionAdd reactionA ''20'' oneToggle)))))))) 0)
       = [''20'', ''21'']"
  by (simp add: toggle_defs handler_defs example_defs2)

section \<open>The toggle settlement and the role held before\<close>

text \<open>
  Claim C2 at an input where the code breaks it. Member 20 holds role 10 through
  the toggled reaction role with emoji a and now reacts with emoji b. The settlement
  keeps b; for a it takes the member out of the winners and removes the reaction,
  but the test before the role is taken off asks whether the member holds a role
  whose id is the id of the reaction role, ''3-a'', so role 10 stays and no
  \<^verbatim>\<open>reactionRoleRemove\<close> is emitted: the member ends with both roles.
\<close>

theorem toggle_role_kept:
  "memberRoles twoToggles member20 = {''10''}
   \<and> memberRoles (snd (toggledRolesTimeout ''20''
                      (snd (onReactionAdd reactionB ''20'' twoToggles)))) member20
       = {''10'', ''12''}
   \<and> emitted (snd (toggledRolesTimeout ''20''
                      (snd (onReactionAdd reactionB ''20'' twoToggles))))
       = [REACTION_ROLE_ADD member20 ''12'']
   \<and> reactions (snd (toggledRolesTimeout ''20''
                      (snd (onReactionAdd reactionB ''20'' twoToggles)))) ''3''
       = [(''a'', [''0'']), (''b'', [''0'', ''20''])]"
  by (simp add: toggle_defs handler_defs example_defs2 insert_commute)

section \<open>A deleted message with two reaction roles\<close>

text \<open>
  Claim C3 at an input where the code breaks it. Two reaction roles are on message 3.
  The message is deleted; the handler looks for one reaction role on the message,
  finds the first and disables it. The second stays enabled.
\<close>

theorem messageDelete_second_enabled:
  "message (heap twoToggles 0) = ''3'' \<and> message (heap twoToggles 1) = ''3''
   \<and> disabled (heap (snd (messageDeleteHandler ''3'' twoToggles)) 0)
   \<and> \<not> disabled (heap (snd (messageDeleteHandler ''3'' twoToggles)) 1)"
  by (simp add: messageDeleteHandler_def onDelete_def handleDeleted_def
      deleteReactionRole_def setDisabled_def example_defs2 Let_def)

end
